theory Spec2Isabelle
  imports Complex_Main "HOL-Library.Multiset"
begin

section \<open>Proxy pool (app/proxy\_manager.py)\<close>

text \<open>
  \<open>ProxyManager\<close> keeps a deque of host names (\<open>_pool\<close>) and a dictionary from host
  name to the time at which the host becomes available again (\<open>_bad_hosts\<close>).
  The wall clock \<open>time.time()\<close> is read once per operation; its value is an argument
  of the operation here, taken as an exact real number. Every operation holds the
  lock of the manager from start to end, so operations are modelled one at a time.
\<close>

type_synonym host = string

record proxy_manager =
  pool :: "host list"
  bad_hosts :: "host \<rightharpoonup> real"

text \<open>
  \<open>_refresh_pool\<close>: the answer of the listing source is \<open>None\<close> when the request, the
  status check or the decoding raised (the \<open>except Exception\<close> branch, \<open>hosts = []\<close>),
  and otherwise the list of items, each with its \<open>hostname\<close> if it has one.
  \<open>random.shuffle\<close> is the argument \<open>shuffle\<close>.
\<close>

type_synonym listing = "host option list option"

definition listed_hosts :: "listing \<Rightarrow> host list" where
  "listed_hosts src = (case src of None \<Rightarrow> [] | Some items \<Rightarrow> [h. Some h \<leftarrow> items])"

definition refresh_pool :: "(host list \<Rightarrow> host list) \<Rightarrow> listing \<Rightarrow> proxy_manager \<Rightarrow> proxy_manager" where
  "refresh_pool shuffle src pm =
     (let hosts = shuffle (listed_hosts src)
      in if hosts \<noteq> [] then pm\<lparr>pool := pool pm @ hosts\<rparr> else pm)"

text \<open>
  The test \<open>available_at and available_at > now\<close> of \<open>get_next_host\<close>: a missing
  entry is \<open>None\<close>, and a stored \<open>0.0\<close> is false as well.
\<close>

definition cooling :: "(host \<rightharpoonup> real) \<Rightarrow> real \<Rightarrow> host \<Rightarrow> bool" where
  "cooling bad now h = (case bad h of None \<Rightarrow> False | Some t \<Rightarrow> t \<noteq> 0 \<and> t > now)"

text \<open>
  The \<open>while self._pool and attempts <= max_attempts\<close> loop. \<open>rotate(-1)\<close> moves the
  head of the deque to its end, which is \<open>rotate1\<close>. The result is the host returned
  from inside the loop (\<open>None\<close> when the loop ends without returning) and the deque.
\<close>

function scan :: "real \<Rightarrow> (host \<rightharpoonup> real) \<Rightarrow> nat \<Rightarrow> nat \<Rightarrow> host list \<Rightarrow> host option \<times> host list" where
  "scan now bad max_attempts attempts p =
     (if p \<noteq> [] \<and> attempts \<le> max_attempts then
        (let h = hd p; p' = rotate1 p; attempts' = attempts + 1
         in if cooling bad now h then scan now bad max_attempts attempts' p'
            else (Some h, p'))
      else (None, p))"
  by pat_completeness auto
termination
  by (relation "measure (\<lambda>(now, bad, m, a, p). Suc m - a)") auto

declare scan.simps [simp del]

definition get_next_host ::
  "(host list \<Rightarrow> host list) \<Rightarrow> listing \<Rightarrow> real \<Rightarrow> proxy_manager \<Rightarrow> host option \<times> proxy_manager" where
  "get_next_host shuffle src now pm =
     (case scan now (bad_hosts pm) (length (pool pm)) 0 (pool pm) of
        (Some h, p') \<Rightarrow> (Some h, pm\<lparr>pool := p'\<rparr>)
      | (None, p') \<Rightarrow>
          (let pm1 = pm\<lparr>pool := p'\<rparr>;
               pm2 = (if pool pm1 = [] then refresh_pool shuffle src pm1 else pm1)
           in if pool pm2 = [] then (None, pm2)
              else (Some (hd (pool pm2)), pm2\<lparr>pool := rotate1 (pool pm2)\<rparr>)))"

text \<open>
  \<open>mark_bad\<close> stores \<open>time.time() + cooldown_seconds\<close>. The sum is taken exactly
  here, where the interpreter rounds it to the nearest float; the two agree whenever
  the exact sum is a float, as it is for the whole numbers of seconds used below.
\<close>

definition mark_bad :: "real \<Rightarrow> host \<Rightarrow> real \<Rightarrow> proxy_manager \<Rightarrow> proxy_manager" where
  "mark_bad now h cooldown_seconds pm =
     pm\<lparr>bad_hosts := (bad_hosts pm)(h \<mapsto> now + cooldown_seconds)\<rparr>"

text \<open>\<open>__init__\<close>: the configured pool, refreshed at once when it is empty.\<close>

definition new_proxy_manager ::
  "(host list \<Rightarrow> host list) \<Rightarrow> listing \<Rightarrow> host list \<Rightarrow> proxy_manager" where
  "new_proxy_manager shuffle src initial_pool =
     (let pm = \<lparr>pool = initial_pool, bad_hosts = Map.empty\<rparr>
      in if pool pm = [] then refresh_pool shuffle src pm else pm)"

section \<open>Python values\<close>

text \<open>
  The payloads the spider handles are what \<open>json.loads\<close> returns: \<open>None\<close>, booleans,
  integers, floats, strings, lists and dictionaries. A dictionary is the list of its
  items (keys unique), looked up with \<open>map_of\<close>. A character is a code point below
  256.
\<close>

datatype pyfloat = Fin rat | NaN | PosInf | NegInf

datatype json =
    JNull
  | JBool bool
  | JInt int
  | JFloat pyfloat
  | JStr string
  | JArr "json list"
  | JObj "(string \<times> json) list"

text \<open>
  A response as the callbacks read it (\<open>response.status\<close>, \<open>response.text\<close>), and
  the failure of a request as \<open>errback\<close> tests it: an \<open>HttpError\<close> with its
  response, the three timeout and lookup errors, or anything else.
\<close>

record response =
  status :: int
  text_of :: string

datatype failure =
    HttpError response
  | TimeoutError
  | TCPTimedOutError
  | DNSLookupError
  | OtherFailure string

text \<open>
  The exceptions of the embedding: the three exception classes of the spider with
  their message, the built-in exceptions that the dictionary, list, \<open>int()\<close> and
  decoding operations raise, and the exception of a failed request when \<open>errback\<close>
  raises it again.
\<close>

datatype exc =
    ProfileNotFound string
  | RateLimited string
  | ProxyTimeout string
  | AttributeError
  | IndexError
  | KeyError
  | TypeError
  | ValueError
  | OverflowError
  | UnicodeDecodeError
  | Reraised failure

text \<open>Sequencing of steps that may raise.\<close>

definition and_then :: "exc + 'a \<Rightarrow> ('a \<Rightarrow> exc + 'b) \<Rightarrow> exc + 'b" where
  "and_then m f = (case m of Inl e \<Rightarrow> Inl e | Inr v \<Rightarrow> f v)"

text \<open>Truth value of a Python object, as \<open>if x\<close>, \<open>x or y\<close> and \<open>not x\<close> take it.\<close>

fun truthy :: "json \<Rightarrow> bool" where
  "truthy JNull = False"
| "truthy (JBool b) = b"
| "truthy (JInt i) = (i \<noteq> 0)"
| "truthy (JFloat f) = (f \<noteq> Fin 0)"
| "truthy (JStr s) = (s \<noteq> [])"
| "truthy (JArr xs) = (xs \<noteq> [])"
| "truthy (JObj kvs) = (kvs \<noteq> [])"

definition py_or :: "json \<Rightarrow> json \<Rightarrow> json" where
  "py_or a b = (if truthy a then a else b)"

text \<open>
  \<open>x.get(key, default)\<close>: only a dictionary has the method, every other value raises
  \<open>AttributeError\<close>. \<open>x[0]\<close>: the first element of a list or the first character of
  a string, \<open>IndexError\<close> when there is none; a dictionary built from JSON has no
  key \<open>0\<close>; the other values cannot be indexed.
\<close>

definition dict_get :: "json \<Rightarrow> string \<Rightarrow> json \<Rightarrow> exc + json" where
  "dict_get x key dflt =
     (case x of
        JObj kvs \<Rightarrow> Inr (case map_of kvs key of None \<Rightarrow> dflt | Some v \<Rightarrow> v)
      | _ \<Rightarrow> Inl AttributeError)"

definition first_item :: "json \<Rightarrow> exc + json" where
  "first_item x =
     (case x of
        JArr xs \<Rightarrow> (case xs of [] \<Rightarrow> Inl IndexError | v # _ \<Rightarrow> Inr v)
      | JStr s \<Rightarrow> (case s of [] \<Rightarrow> Inl IndexError | c # _ \<Rightarrow> Inr (JStr [c]))
      | JObj kvs \<Rightarrow> Inl KeyError
      | _ \<Rightarrow> Inl TypeError)"

subsection \<open>Strings\<close>

text \<open>
  \<open>str.strip()\<close> removes the characters for which \<open>str.isspace\<close> holds from both
  ends; below 256 these are 9 to 13, 28 to 32, 133 and 160.
  \<open>str.lstrip("@")\<close> removes every leading \<open>@\<close>.
\<close>

definition py_isspace :: "char \<Rightarrow> bool" where
  "py_isspace c =
     (let n = (of_char c :: nat)
      in (9 \<le> n \<and> n \<le> 13) \<or> (28 \<le> n \<and> n \<le> 32) \<or> n = 133 \<or> n = 160)"

definition py_strip :: "string \<Rightarrow> string" where
  "py_strip s = rev (dropWhile py_isspace (rev (dropWhile py_isspace s)))"

definition lstrip_at :: "string \<Rightarrow> string" where
  "lstrip_at s = dropWhile (\<lambda>c. c = CHR ''@'') s"

text \<open>
  \<open>str.lower()\<close> on the letters \<open>A\<close> to \<open>Z\<close>; a string is lowercase when it changes
  nothing. No function of the repository calls it: it is here to state what a
  lowercase handle would be.
\<close>

definition ascii_lower :: "string \<Rightarrow> string" where
  "ascii_lower s =
     map (\<lambda>c. let n = (of_char c :: nat)
               in if 65 \<le> n \<and> n \<le> 90 then char_of (n + 32) else c) s"

text \<open>
  \<open>str.replace(old, new)\<close>, every occurrence from the left; with an empty \<open>old\<close>
  Python puts \<open>new\<close> around every character.
\<close>

function py_replace :: "string \<Rightarrow> string \<Rightarrow> string \<Rightarrow> string" where
  "py_replace old new s =
     (if old = [] then concat (map (\<lambda>c. new @ [c]) s) @ new
      else if s = [] then []
      else if take (length old) s = old
        then new @ py_replace old new (drop (length old) s)
      else hd s # py_replace old new (tl s))"
  by pat_completeness auto
termination
  by (relation "measure (\<lambda>(old, new, s). length s)") auto

declare py_replace.simps [simp del]

text \<open>
  \<open>int(s)\<close> on a string. The whitespace that \<open>int\<close> drops at both ends is not that
  of \<open>str.strip\<close>: the characters 28 to 31 are kept (so a string that starts or ends
  with one of them is rejected), and 9 to 13, 32, 133 and 160 are dropped. One sign
  is allowed, and the rest is decimal digits, where single underscores may stand
  between digits. A string with more than \<open>int_max_str_digits\<close> digits (the default
  of \<open>sys.get_int_max_str_digits()\<close>, which the repository does not change) is
  rejected, as is anything else; a rejection is a \<open>ValueError\<close> (\<open>None\<close> here).
\<close>

definition int_isspace :: "char \<Rightarrow> bool" where
  "int_isspace c =
     (let n = (of_char c :: nat)
      in (9 \<le> n \<and> n \<le> 13) \<or> n = 32 \<or> n = 133 \<or> n = 160)"

definition int_strip :: "string \<Rightarrow> string" where
  "int_strip s = rev (dropWhile int_isspace (rev (dropWhile int_isspace s)))"

definition int_max_str_digits :: nat where
  "int_max_str_digits = 4300"

definition is_digit :: "char \<Rightarrow> bool" where
  "is_digit c = (let n = (of_char c :: nat) in 48 \<le> n \<and> n \<le> 57)"

fun digit_groups :: "bool \<Rightarrow> string \<Rightarrow> bool" where
  "digit_groups after_digit [] = after_digit"
| "digit_groups after_digit (c # cs) =
     (if is_digit c then digit_groups True cs
      else if c = CHR ''_'' \<and> after_digit then digit_groups False cs
      else False)"

definition digits_value :: "string \<Rightarrow> int" where
  "digits_value s =
     foldl (\<lambda>a c. 10 * a + (int (of_char c) - 48)) 0 (filter is_digit s)"

definition int_of_str :: "string \<Rightarrow> int option" where
  "int_of_str s =
     (let t = int_strip s;
          neg = (t \<noteq> [] \<and> hd t = CHR ''-'');
          body = (if t \<noteq> [] \<and> (hd t = CHR ''-'' \<or> hd t = CHR ''+'') then tl t else t)
      in if digit_groups False body \<and> length (filter is_digit body) \<le> int_max_str_digits
         then Some (if neg then - digits_value body else digits_value body)
         else None)"

text \<open>
  \<open>int(x)\<close>: an integer is itself, a boolean is 0 or 1, a finite float is truncated
  towards zero, a string is parsed; \<open>nan\<close> is a \<open>ValueError\<close>, an infinity an
  \<open>OverflowError\<close>, and \<open>None\<close>, lists and dictionaries a \<open>TypeError\<close>.
\<close>

fun py_int :: "json \<Rightarrow> exc + int" where
  "py_int (JInt i) = Inr i"
| "py_int (JBool b) = Inr (if b then 1 else 0)"
| "py_int (JFloat (Fin q)) = Inr (if 0 \<le> q then \<lfloor>q\<rfloor> else \<lceil>q\<rceil>)"
| "py_int (JFloat NaN) = Inl ValueError"
| "py_int (JFloat PosInf) = Inl OverflowError"
| "py_int (JFloat NegInf) = Inl OverflowError"
| "py_int (JStr s) = (case int_of_str s of None \<Rightarrow> Inl ValueError | Some i \<Rightarrow> Inr i)"
| "py_int JNull = Inl TypeError"
| "py_int (JArr xs) = Inl TypeError"
| "py_int (JObj kvs) = Inl TypeError"

section \<open>The profile spider (scraper/spiders/instagram\_profile.py)\<close>

text \<open>
  The dictionary a strategy appends to \<open>result_buffer\<close>. \<open>followers\<close> is always the
  result of \<open>int()\<close>; the other values are whatever the payload held (\<open>JNull\<close> is
  Python's \<open>None\<close>).
\<close>

record profile =
  username :: string
  full_name :: json
  biography :: json
  followers :: int
  profile_picture_url :: json

text \<open>\<open>__init__\<close>: \<open>self.username = username.strip().lstrip("@")\<close>.\<close>

definition spider_username :: "string \<Rightarrow> string" where
  "spider_username name = lstrip_at (py_strip name)"

definition quote :: string where
  "quote = [CHR 0x27]"

definition not_found_msg :: "string \<Rightarrow> string" where
  "not_found_msg u = ''Instagram profile '' @ quote @ u @ quote @ '' not found.''"

definition rate_limited_msg :: string where
  "rate_limited_msg = ''Instagram responded with HTTP 429 Too Many Requests.''"

definition unable_msg :: "string \<Rightarrow> string" where
  "unable_msg u =
     ''Unable to extract data from Instagram profile '' @ quote @ u @ quote @ ''.''"

definition timeout_msg :: "string \<Rightarrow> string" where
  "timeout_msg u = ''Timeout while scraping '' @ quote @ u @ quote @ ''.''"

text \<open>
  \<open>_build_result_from_user\<close>. Every \<open>user_payload.get\<close> raises \<open>AttributeError\<close>
  when the payload is not a dictionary; \<open>(... or {}).get("count")\<close> raises it when
  \<open>edge_followed_by\<close> holds a true value that is not a dictionary; \<open>int(followers or 0)\<close>
  raises as \<open>py_int\<close> does.
\<close>

definition build_result_from_user :: "string \<Rightarrow> json \<Rightarrow> exc + profile" where
  "build_result_from_user u user_payload =
     and_then (dict_get user_payload ''edge_followed_by'' (JObj [])) (\<lambda>edge.
     and_then (dict_get (py_or edge (JObj [])) ''count'' JNull) (\<lambda>followers.
     and_then (dict_get user_payload ''profile_pic_url_hd'' JNull) (\<lambda>pic_hd.
     and_then (if truthy pic_hd then Inr pic_hd
               else dict_get user_payload ''profile_pic_url'' JNull) (\<lambda>profile_pic.
     and_then (dict_get user_payload ''biography'' JNull) (\<lambda>bio.
     and_then (dict_get user_payload ''full_name'' JNull) (\<lambda>name.
     and_then (py_int (py_or followers (JInt 0))) (\<lambda>n.
       Inr \<lparr>username = u,
            full_name = name,
            biography = (if truthy bio then bio else JNull),
            followers = n,
            profile_picture_url = profile_pic\<rparr>)))))))"

subsection \<open>Library functions\<close>

text \<open>
  The regular expression engine, the JSON decoder and the two text decoders are
  library code; the spider is given them as arguments.
  \<^item> \<open>re_search p s\<close> is group 1 of the first match of pattern \<open>p\<close> in \<open>s\<close>, or
    \<open>None\<close> when \<open>re.search\<close> finds no match;
  \<^item> \<open>json_loads s\<close> is the decoded value, or \<open>None\<close> for \<open>JSONDecodeError\<close>
    (\<open>response.json()\<close> is \<open>json.loads(response.text)\<close>);
  \<^item> \<open>unicode_escape s\<close> is \<open>s.encode("utf-8").decode("unicode_escape")\<close>, or \<open>None\<close>
    for \<open>UnicodeDecodeError\<close>;
  \<^item> \<open>html_unescape\<close> is \<open>html.unescape\<close>.
  The patterns are the six of \<open>_extract_json_blob\<close> and \<open>_extract_from_html\<close>, in the
  order of the source.
\<close>

datatype pattern =
    AdditionalDataLoaded
  | SharedData
  | EdgeFollowedBy
  | ProfilePicUrlHd
  | FullName
  | Biography

record lib =
  re_search :: "pattern \<Rightarrow> string \<Rightarrow> string option"
  json_loads :: "string \<Rightarrow> json option"
  unicode_escape :: "string \<Rightarrow> string option"
  html_unescape :: "string \<Rightarrow> string"

subsection \<open>Callbacks\<close>

text \<open>
  A callback of the spider ends in one of three ways: it yields the request of a
  later strategy (\<open>yield from self._schedule_...\<close>, the request naming its callback),
  it appends a result to the buffer and returns, or it raises.
\<close>

datatype stage = MobileApi | WebApi | LegacyJson | Html

datatype step = Yield stage | Item profile | Raise exc

definition emit :: "exc + profile \<Rightarrow> step" where
  "emit r = (case r of Inl e \<Rightarrow> Raise e | Inr p \<Rightarrow> Item p)"

text \<open>
  \<open>user = (payload or {}).get("data", {}).get("user") if payload else None\<close>, with
  \<open>payload = None\<close> after a \<open>JSONDecodeError\<close>.
\<close>

definition api_user :: "json option \<Rightarrow> exc + json" where
  "api_user decoded =
     (let payload = (case decoded of None \<Rightarrow> JNull | Some p \<Rightarrow> p)
      in if truthy payload
         then and_then (dict_get (py_or payload (JObj [])) ''data'' (JObj [])) (\<lambda>d.
              dict_get d ''user'' JNull)
         else Inr JNull)"

definition parse_mobile_api :: "lib \<Rightarrow> string \<Rightarrow> response \<Rightarrow> step" where
  "parse_mobile_api L u r =
     (if status r = 404 then Raise (ProfileNotFound (not_found_msg u))
      else if status r = 429 then Raise (RateLimited rate_limited_msg)
      else if status r = 200 \<and> py_strip (text_of r) \<noteq> [] then
        (case api_user (json_loads L (text_of r)) of
           Inl e \<Rightarrow> Raise e
         | Inr user \<Rightarrow>
             if truthy user then emit (build_result_from_user u user)
             else Yield WebApi)
      else Yield WebApi)"

definition parse_api_v1 :: "lib \<Rightarrow> string \<Rightarrow> response \<Rightarrow> step" where
  "parse_api_v1 L u r =
     (if status r = 404 then Raise (ProfileNotFound (not_found_msg u))
      else if status r = 429 then Raise (RateLimited rate_limited_msg)
      else if status r = 200 then
        (case api_user (json_loads L (text_of r)) of
           Inl e \<Rightarrow> Raise e
         | Inr user \<Rightarrow>
             if truthy user then emit (build_result_from_user u user)
             else Yield LegacyJson)
      else Yield LegacyJson)"

text \<open>
  The three shapes of the legacy payload, joined by \<open>or\<close>: a later shape is
  evaluated only when the earlier ones gave a false value. \<open>shape_user payload key\<close>
  is \<open>payload.get(key, {}).get("user")\<close>.
\<close>

definition shape_user :: "json \<Rightarrow> string \<Rightarrow> exc + json" where
  "shape_user payload key =
     and_then (dict_get payload key (JObj [])) (\<lambda>inner. dict_get inner ''user'' JNull)"

definition legacy_user :: "json \<Rightarrow> exc + json" where
  "legacy_user payload =
     and_then (shape_user payload ''graphql'') (\<lambda>a.
     if truthy a then Inr a
     else
       and_then (shape_user payload ''data'') (\<lambda>b.
       if truthy b then Inr b
       else
         and_then (dict_get payload ''items'' (JArr [JObj []])) (\<lambda>items.
         and_then (first_item items) (\<lambda>item.
         dict_get item ''user'' (JObj [])))))"

definition parse_legacy_json :: "lib \<Rightarrow> string \<Rightarrow> response \<Rightarrow> step" where
  "parse_legacy_json L u r =
     (if status r = 404 then Raise (ProfileNotFound (not_found_msg u))
      else if status r = 429 then Raise (RateLimited rate_limited_msg)
      else if status r \<ge> 400 \<or> py_strip (text_of r) = [] then Yield Html
      else
        (case json_loads L (text_of r) of
           None \<Rightarrow> Yield Html
         | Some payload \<Rightarrow>
             (case legacy_user payload of
                Inl e \<Rightarrow> Raise e
              | Inr user \<Rightarrow>
                  if truthy user then emit (build_result_from_user u user)
                  else Yield Html)))"

text \<open>
  \<open>_extract_json_blob\<close>: the first marker, else the second, and the decoded group.
\<close>

definition extract_json_blob :: "lib \<Rightarrow> string \<Rightarrow> json option" where
  "extract_json_blob L html =
     (let m1 = re_search L AdditionalDataLoaded html;
          blob_match = (if m1 = None then re_search L SharedData html else m1)
      in case blob_match of None \<Rightarrow> None | Some g \<Rightarrow> json_loads L g)"

text \<open>
  The first half of \<open>_extract_from_html\<close>: the user object of the embedded blob.
  \<open>JNull\<close> stands for the cases in which the source does not look for one (no blob
  or a false payload).
\<close>

definition blob_user :: "lib \<Rightarrow> string \<Rightarrow> exc + json" where
  "blob_user L html =
     (case extract_json_blob L html of
        None \<Rightarrow> Inr JNull
      | Some script_payload \<Rightarrow>
          if truthy script_payload then
            and_then (dict_get script_payload ''entry_data'' (JObj [])) (\<lambda>entry.
            and_then (dict_get entry ''ProfilePage'' (JArr [JObj []])) (\<lambda>pages.
            and_then (first_item pages) (\<lambda>page.
            and_then (dict_get page ''graphql'' (JObj [])) (\<lambda>g.
            dict_get g ''user'' JNull))))
          else Inr JNull)"

definition u0026 :: string where
  "u0026 = [CHR 0x5C, CHR ''u'', CHR ''0'', CHR ''0'', CHR ''2'', CHR ''6'']"

definition decode_text :: "lib \<Rightarrow> string \<Rightarrow> exc + string" where
  "decode_text L g =
     (case unicode_escape L g of
        None \<Rightarrow> Inl UnicodeDecodeError
      | Some s \<Rightarrow> Inr (html_unescape L s))"

text \<open>
  The second half of \<open>_extract_from_html\<close>: the values taken from the matches of
  the regular expressions, in the order in which the source evaluates what may raise
  (\<open>int\<close>, the picture, the biography), then the test
  \<open>followers == 0 and not profile_pic\<close>.
\<close>

definition regex_followers :: "lib \<Rightarrow> string \<Rightarrow> exc + int" where
  "regex_followers L html =
     (case re_search L EdgeFollowedBy html of
        None \<Rightarrow> Inr 0
      | Some g \<Rightarrow> py_int (JStr g))"

definition regex_picture :: "lib \<Rightarrow> string \<Rightarrow> exc + json" where
  "regex_picture L html =
     (case re_search L ProfilePicUrlHd html of
        None \<Rightarrow> Inr JNull
      | Some g \<Rightarrow> and_then (decode_text L g) (\<lambda>s. Inr (JStr (py_replace u0026 ''&'' s))))"

definition regex_biography :: "lib \<Rightarrow> string \<Rightarrow> exc + json" where
  "regex_biography L html =
     (case re_search L Biography html of
        None \<Rightarrow> Inr JNull
      | Some g \<Rightarrow> and_then (decode_text L g) (\<lambda>s. Inr (JStr s)))"

definition regex_full_name :: "lib \<Rightarrow> string \<Rightarrow> json" where
  "regex_full_name L html =
     (case re_search L FullName html of
        None \<Rightarrow> JNull
      | Some g \<Rightarrow> JStr (html_unescape L g))"

definition regex_profile :: "lib \<Rightarrow> string \<Rightarrow> string \<Rightarrow> exc + profile option" where
  "regex_profile L u html =
     and_then (regex_followers L html) (\<lambda>n.
     and_then (regex_picture L html) (\<lambda>profile_pic.
     and_then (regex_biography L html) (\<lambda>bio.
     if n = 0 \<and> \<not> truthy profile_pic then Inr None
     else Inr (Some
       \<lparr>username = u,
        full_name = regex_full_name L html,
        biography = bio,
        followers = n,
        profile_picture_url = profile_pic\<rparr>))))"

definition extract_from_html :: "lib \<Rightarrow> string \<Rightarrow> string \<Rightarrow> exc + profile option" where
  "extract_from_html L u html =
     and_then (blob_user L html) (\<lambda>user.
     if truthy user
     then and_then (build_result_from_user u user) (\<lambda>p. Inr (Some p))
     else regex_profile L u html)"

definition parse_html :: "lib \<Rightarrow> string \<Rightarrow> response \<Rightarrow> step" where
  "parse_html L u r =
     (if status r = 404 then Raise (ProfileNotFound (not_found_msg u))
      else if status r = 429 then Raise (RateLimited rate_limited_msg)
      else
        (case extract_from_html L u (text_of r) of
           Inl e \<Rightarrow> Raise e
         | Inr None \<Rightarrow> Raise (ProfileNotFound (unable_msg u))
         | Inr (Some parsed) \<Rightarrow> Item parsed))"

text \<open>\<open>errback\<close>, called with the failure of a request instead of a callback.\<close>

definition errback :: "string \<Rightarrow> failure \<Rightarrow> step" where
  "errback u f =
     (case (case f of
              HttpError r \<Rightarrow>
                if status r = 404 then Some (ProfileNotFound (not_found_msg u))
                else if status r = 429 then Some (RateLimited rate_limited_msg)
                else None
            | _ \<Rightarrow> None) of
        Some e \<Rightarrow> Raise e
      | None \<Rightarrow>
          if f = TimeoutError \<or> f = TCPTimedOutError \<or> f = DNSLookupError
          then Raise (ProxyTimeout (timeout_msg u))
          else Raise (Reraised f))"

subsection \<open>The chain of requests\<close>

text \<open>
  The engine hands the answer to a request either to the request's callback or to
  its errback; which of the two a given answer goes to is decided outside the
  spider, so the answer arrives here already as one or the other.
  \<open>start_requests\<close> issues the mobile API request; each further request is the one
  a callback yields. \<open>crawl\<close> follows the requests of one run and returns the
  strategies requested, in order, with the way the run ended.
\<close>

datatype delivery = Callback response | Errback failure

definition callback :: "lib \<Rightarrow> string \<Rightarrow> stage \<Rightarrow> response \<Rightarrow> step" where
  "callback L u s =
     (case s of
        MobileApi \<Rightarrow> parse_mobile_api L u
      | WebApi \<Rightarrow> parse_api_v1 L u
      | LegacyJson \<Rightarrow> parse_legacy_json L u
      | Html \<Rightarrow> parse_html L u)"

definition deliver :: "lib \<Rightarrow> string \<Rightarrow> stage \<Rightarrow> delivery \<Rightarrow> step" where
  "deliver L u s d =
     (case d of Callback r \<Rightarrow> callback L u s r | Errback f \<Rightarrow> errback u f)"

fun rank :: "stage \<Rightarrow> nat" where
  "rank MobileApi = 0"
| "rank WebApi = 1"
| "rank LegacyJson = 2"
| "rank Html = 3"

datatype outcome = Record profile | Raised exc

function crawl :: "lib \<Rightarrow> string \<Rightarrow> (stage \<Rightarrow> delivery) \<Rightarrow> stage \<Rightarrow> stage list \<times> outcome" where
  "crawl L u net s =
     (case deliver L u s (net s) of
        Yield s' \<Rightarrow> (case crawl L u net s' of (requested, out) \<Rightarrow> (s # requested, out))
      | Item p \<Rightarrow> ([s], Record p)
      | Raise e \<Rightarrow> ([s], Raised e))"
  by pat_completeness auto
termination
proof (relation "measure (\<lambda>(L, u, net, s). 4 - rank s)")
  show "wf (measure (\<lambda>(L, u, net, s). 4 - rank s))"
    by simp
next
  fix L :: lib and u :: string and net :: "stage \<Rightarrow> delivery" and s s' :: stage
  assume y: "deliver L u s (net s) = Yield s'"
  have e: "errback u f \<noteq> Yield s'" for f
    by (simp add: errback_def split: option.splits failure.splits)
  have m: "emit r \<noteq> Yield s''" for r s''
    by (simp add: emit_def split: sum.splits)
  from y e obtain r where r: "net s = Callback r" and c: "callback L u s r = Yield s'"
    by (cases "net s") (auto simp add: deliver_def)
  have "rank s < rank s'"
  proof (cases s)
    case MobileApi
    with c m have "s' = WebApi"
      by (auto simp add: callback_def parse_mobile_api_def split: if_splits sum.splits)
    with MobileApi show ?thesis by simp
  next
    case WebApi
    with c m have "s' = LegacyJson"
      by (auto simp add: callback_def parse_api_v1_def split: if_splits sum.splits)
    with WebApi show ?thesis by simp
  next
    case LegacyJson
    with c m have "s' = Html"
      by (auto simp add: callback_def parse_legacy_json_def
          split: if_splits sum.splits option.splits)
    with LegacyJson show ?thesis by simp
  next
    case Html
    with c have False
      by (auto simp add: callback_def parse_html_def
          split: if_splits sum.splits option.splits)
    then show ?thesis ..
  qed
  moreover have "rank s' < 4"
    by (cases s') simp_all
  ultimately show "((L, u, net, s'), (L, u, net, s)) \<in> measure (\<lambda>(L, u, net, s). 4 - rank s)"
    by simp
qed

declare crawl.simps [simp del]

text \<open>
  A strategy advances when its callback or errback yields a further request; every
  other end of a step is final for the run.
\<close>

definition advances :: "step \<Rightarrow> bool" where
  "advances st = (case st of Yield s' \<Rightarrow> True | Item p \<Rightarrow> False | Raise e \<Rightarrow> False)"

text \<open>One run of the spider for the name it was constructed with.\<close>

definition run_spider :: "lib \<Rightarrow> string \<Rightarrow> (stage \<Rightarrow> delivery) \<Rightarrow> stage list \<times> outcome" where
  "run_spider L name net = crawl L (spider_username name) net MobileApi"

section \<open>The scraping service (app/scraper\_service.py, app/config.py)\<close>

text \<open>
  The settings the service reads. \<open>socks5_url\<close> builds the proxy URL from the
  credentials, the host and the port, or returns \<open>None\<close> when one of them is missing
  or false; the URL is kept as its four parts.
\<close>

record settings =
  proxy_retry_limit :: int
  socks5_host :: "string option"
  socks5_port :: "int option"
  nord_username :: "string option"
  nord_password :: "string option"

datatype proxy_url = Socks5 string string host int

definition str_truthy :: "string option \<Rightarrow> bool" where
  "str_truthy x = (case x of None \<Rightarrow> False | Some s \<Rightarrow> s \<noteq> [])"

definition socks5_url :: "settings \<Rightarrow> host option \<Rightarrow> proxy_url option" where
  "socks5_url cfg host_arg =
     (let h = (if str_truthy host_arg then host_arg else socks5_host cfg)
      in case (h, socks5_port cfg, nord_username cfg, nord_password cfg) of
           (Some hh, Some port, Some un, Some pw) \<Rightarrow>
             if hh \<noteq> [] \<and> port \<noteq> 0 \<and> un \<noteq> [] \<and> pw \<noteq> []
             then Some (Socks5 un pw hh port) else None
         | _ \<Rightarrow> None)"

text \<open>
  The exceptions that leave \<open>scrape_instagram_profile\<close>: the three of the service,
  with their message, and two that the function does not catch, the \<open>ValueError\<close>
  that \<open>_proxy_reachable\<close> can raise and the \<open>ValidationError\<close> of the
  \<open>InstagramProfile\<close> constructor.
\<close>

datatype service_error =
    ProfileNotFoundError string
  | RateLimitError string
  | ScraperRuntimeError string
  | ProbeValueError
  | ValidationError

text \<open>
  What the \<open>try\<close> statements around \<open>await run_with_proxy(...)\<close> tell apart: the call
  returns, the records appended to \<open>result_buffer\<close> meanwhile being given, or it
  raises one of the three exceptions of the spider or another exception; the string
  is \<open>str(exc)\<close>.
\<close>

datatype run_result =
    Returned "profile list"
  | ThrewProxyTimeout string
  | ThrewRateLimited string
  | ThrewProfileNotFound string
  | ThrewOther string

text \<open>
  \<open>run_with_proxy\<close> calls \<open>_run_spider\<close>, which starts the crawl with \<open>runner.crawl\<close>
  and waits for its end. An exception that a callback or the errback of the spider
  raises does not travel to the caller: the crawling engine logs it, and the crawl
  ends since no request is left. So the call returns, and the buffer has gained the
  record if a strategy appended one and nothing otherwise. The call raises only
  when the crawl fails outside the callbacks (the spider cannot be constructed, for
  instance); \<open>crash\<close> is then the text of that exception, which is not one of the
  spider's three.
\<close>

definition run_with_proxy ::
  "lib \<Rightarrow> string \<Rightarrow> (stage \<Rightarrow> delivery) \<Rightarrow> string option \<Rightarrow> run_result" where
  "run_with_proxy L name net crash =
     (case crash of
        Some m \<Rightarrow> ThrewOther m
      | None \<Rightarrow>
          (case snd (run_spider L name net) of
             Record p \<Rightarrow> Returned [p]
           | Raised e \<Rightarrow> Returned []))"

text \<open>
  \<open>_proxy_reachable\<close> parses the URL and tries a TCP connection. It returns \<open>True\<close>
  or \<open>False\<close> (an \<open>OSError\<close> of the connection is caught), or it raises: \<open>parsed.port\<close>
  is read before the \<open>try\<close> and is a \<open>ValueError\<close> when the port part of the URL is
  not a number from 0 to 65535.
\<close>

datatype probe = Reached | NotReached | ProbeRaised

text \<open>
  What the service meets outside itself during one request, by the number \<open>i\<close> of
  the loop iteration (the value of \<open>proxy_attempts\<close> when the iteration starts): the
  shuffle and the answer of the listing source, the clock readings of
  \<open>get_next_host\<close> and of \<open>mark_bad\<close>, the result of \<open>_proxy_reachable\<close>, the answers
  to the requests of a spider run through a proxy and of the direct run, and the
  exception of a run that fails outside the spider, if any. \<open>library\<close> holds the
  library functions of the spider. \<open>validates\<close> tells whether the
  \<open>InstagramProfile\<close> constructor accepts a record.
\<close>

record world =
  shuffle_of :: "host list \<Rightarrow> host list"
  listing_at :: "nat \<Rightarrow> listing"
  select_time :: "nat \<Rightarrow> real"
  mark_time :: "nat \<Rightarrow> real"
  probe_at :: "nat \<Rightarrow> proxy_url \<Rightarrow> probe"
  library :: lib
  proxy_net :: "nat \<Rightarrow> proxy_url \<Rightarrow> stage \<Rightarrow> delivery"
  proxy_crash :: "nat \<Rightarrow> proxy_url \<Rightarrow> string option"
  direct_net :: "stage \<Rightarrow> delivery"
  direct_crash :: "string option"
  validates :: "profile \<Rightarrow> bool"

text \<open>
  The variables of \<open>scrape_instagram_profile\<close> with the state of the proxy manager.
  \<open>events\<close> is not a variable of the source: it records, one entry for each loop
  iteration and one for the direct attempt, what happened, so that properties of
  the order of attempts can be stated.
\<close>

datatype event =
    NoHost
  | NoProxyUrl host
  | ProbeFailed host
  | Unreachable host
  | ProxyRun host run_result
  | DirectRun run_result

record scrape_state =
  manager :: proxy_manager
  proxy_attempts :: nat
  result_buffer :: "profile list"
  failure_reasons :: "string list"
  events :: "event list"

datatype flow = Continue scrape_state | Break scrape_state | Raises service_error scrape_state

text \<open>
  The body of \<open>while proxy_attempts < settings.proxy_retry_limit\<close>. \<open>if not host\<close> is
  true for \<open>None\<close> and for an empty host name. The call of \<open>_proxy_reachable\<close> is
  outside every \<open>try\<close>, so its exception leaves the function. The sleep before
  \<open>continue\<close> only lets time pass, which the clock readings of the world account
  for; log messages are left out.
\<close>

definition loop_body :: "settings \<Rightarrow> world \<Rightarrow> string \<Rightarrow> scrape_state \<Rightarrow> flow" where
  "loop_body cfg W name st =
     (let i = proxy_attempts st
      in case get_next_host (shuffle_of W) (listing_at W i) (select_time W i) (manager st) of
        (host_opt, pm1) \<Rightarrow>
          if \<not> str_truthy host_opt
          then Break (st\<lparr>manager := pm1, events := events st @ [NoHost]\<rparr>)
          else
            (let host = the host_opt;
                 st1 = st\<lparr>manager := pm1, proxy_attempts := i + 1\<rparr>;
                 bad = mark_bad (mark_time W i) host 600 pm1
             in case socks5_url cfg (Some host) of
               None \<Rightarrow> Break (st1\<lparr>events := events st @ [NoProxyUrl host]\<rparr>)
             | Some url \<Rightarrow>
                 (case probe_at W i url of
                    ProbeRaised \<Rightarrow>
                      Raises ProbeValueError (st1\<lparr>events := events st @ [ProbeFailed host]\<rparr>)
                  | NotReached \<Rightarrow>
                      Continue (st1\<lparr>manager := bad,
                                   events := events st @ [Unreachable host]\<rparr>)
                  | Reached \<Rightarrow>
                      (let res = run_with_proxy (library W) name (proxy_net W i url)
                                   (proxy_crash W i url);
                           ev = events st @ [ProxyRun host res]
                       in case res of
                         Returned recs \<Rightarrow>
                           Break (st1\<lparr>result_buffer := result_buffer st @ recs,
                                      events := ev\<rparr>)
                       | ThrewProxyTimeout m \<Rightarrow>
                           Continue (st1\<lparr>manager := bad,
                             failure_reasons :=
                               failure_reasons st @ [''Proxy timeout via '' @ host],
                             events := ev\<rparr>)
                       | ThrewRateLimited m \<Rightarrow>
                           Raises (RateLimitError m) (st1\<lparr>manager := bad, events := ev\<rparr>)
                       | ThrewProfileNotFound m \<Rightarrow>
                           Raises (ProfileNotFoundError m) (st1\<lparr>events := ev\<rparr>)
                       | ThrewOther m \<Rightarrow>
                           Continue (st1\<lparr>manager := bad,
                             failure_reasons :=
                               failure_reasons st
                                 @ [''Proxy '' @ host @ '' unexpected error: '' @ m],
                             events := ev\<rparr>)))))"

function proxy_loop ::
  "settings \<Rightarrow> world \<Rightarrow> string \<Rightarrow> scrape_state \<Rightarrow> service_error option \<times> scrape_state" where
  "proxy_loop cfg W name st =
     (if int (proxy_attempts st) < proxy_retry_limit cfg then
        (case loop_body cfg W name st of
           Continue st' \<Rightarrow> proxy_loop cfg W name st'
         | Break st' \<Rightarrow> (None, st')
         | Raises err st' \<Rightarrow> (Some err, st'))
      else (None, st))"
  by pat_completeness auto
termination
proof (relation
    "measure (\<lambda>(cfg, W, name, st). nat (proxy_retry_limit cfg - int (proxy_attempts st)))")
  show "wf (measure
      (\<lambda>(cfg, W, name, st). nat (proxy_retry_limit cfg - int (proxy_attempts st))))"
    by simp
next
  fix cfg :: settings and W :: world and name :: string and st st' :: scrape_state
  assume lt: "int (proxy_attempts st) < proxy_retry_limit cfg"
    and c: "loop_body cfg W name st = Continue st'"
  from c have "proxy_attempts st' = proxy_attempts st + 1"
    by (auto simp add: loop_body_def Let_def
        split: prod.splits if_splits option.splits probe.splits run_result.splits)
  with lt show "((cfg, W, name, st'), (cfg, W, name, st))
      \<in> measure (\<lambda>(cfg, W, name, st).
            nat (proxy_retry_limit cfg - int (proxy_attempts st)))"
    by simp
qed

declare proxy_loop.simps [simp del]

text \<open>The direct attempt, \<open>await run_with_proxy(None)\<close> in its \<open>try\<close>.\<close>

definition unavailable_msg :: "string \<Rightarrow> string \<Rightarrow> string" where
  "unavailable_msg name detail =
     ''Instagram profile '' @ quote @ name @ quote @ '' is unavailable or private. '' @ detail"

fun join_comma :: "string list \<Rightarrow> string" where
  "join_comma [] = []"
| "join_comma [x] = x"
| "join_comma (x # y # ys) = x @ '', '' @ join_comma (y # ys)"

definition direct_attempt ::
  "world \<Rightarrow> string \<Rightarrow> scrape_state \<Rightarrow> service_error option \<times> scrape_state" where
  "direct_attempt W name st =
     (let res = run_with_proxy (library W) name (direct_net W) (direct_crash W);
          st1 = st\<lparr>events := events st @ [DirectRun res]\<rparr>
      in case res of
        Returned recs \<Rightarrow> (None, st1\<lparr>result_buffer := result_buffer st @ recs\<rparr>)
      | ThrewProfileNotFound m \<Rightarrow> (Some (ProfileNotFoundError m), st1)
      | ThrewRateLimited m \<Rightarrow> (Some (RateLimitError m), st1)
      | ThrewProxyTimeout m \<Rightarrow>
          (Some (ScraperRuntimeError m),
           st1\<lparr>failure_reasons := failure_reasons st @ [''Direct connection timeout'']\<rparr>)
      | ThrewOther m \<Rightarrow>
          (Some (ProfileNotFoundError (unavailable_msg name m)),
           st1\<lparr>failure_reasons :=
                 failure_reasons st @ [''Direct connection error: '' @ m]\<rparr>))"

definition initial_state :: "proxy_manager \<Rightarrow> scrape_state" where
  "initial_state pm =
     \<lparr>manager = pm, proxy_attempts = 0, result_buffer = [], failure_reasons = [],
      events = []\<rparr>"

text \<open>
  \<open>scrape_instagram_profile\<close>: the loop, the direct attempt when the buffer is empty,
  the final test of the buffer, and the construction of the result from the first
  record of the buffer. The result is that record or the exception raised, with the
  final state.
\<close>

definition scrape_instagram_profile ::
  "settings \<Rightarrow> world \<Rightarrow> string \<Rightarrow> proxy_manager \<Rightarrow> (service_error + profile) \<times> scrape_state" where
  "scrape_instagram_profile cfg W name pm =
     (case proxy_loop cfg W name (initial_state pm) of
        (Some err, st) \<Rightarrow> (Inl err, st)
      | (None, st) \<Rightarrow>
          (case (if result_buffer st = [] then direct_attempt W name st else (None, st)) of
             (Some err, st') \<Rightarrow> (Inl err, st')
           | (None, st') \<Rightarrow>
               if result_buffer st' = [] then
                 (Inl (ProfileNotFoundError (unavailable_msg name
                    (if failure_reasons st' \<noteq> [] then join_comma (failure_reasons st')
                     else ''No data returned''))), st')
               else if validates W (hd (result_buffer st'))
               then (Inr (hd (result_buffer st')), st')
               else (Inl ValidationError, st')))"

text \<open>
  Reading the record of events: the entry of the direct attempt, and the failure
  reason an entry adds.
\<close>

fun is_direct :: "event \<Rightarrow> bool" where
  "is_direct (DirectRun r) = True"
| "is_direct e = False"

fun reason_of :: "event \<Rightarrow> string list" where
  "reason_of (ProxyRun h (ThrewProxyTimeout m)) = [''Proxy timeout via '' @ h]"
| "reason_of (ProxyRun h (ThrewOther m)) = [''Proxy '' @ h @ '' unexpected error: '' @ m]"
| "reason_of e = []"

section \<open>Properties of the proxy pool\<close>

lemma scan_stop: "p = [] \<or> \<not> a \<le> m \<Longrightarrow> scan now bad m a p = (None, p)"
  by (auto simp add: scan.simps [of now bad m a p])

lemma scan_hit:
  "p \<noteq> [] \<Longrightarrow> a \<le> m \<Longrightarrow> \<not> cooling bad now (hd p) \<Longrightarrow>
   scan now bad m a p = (Some (hd p), rotate1 p)"
  by (simp add: scan.simps [of now bad m a p])

lemma scan_skip:
  "p \<noteq> [] \<Longrightarrow> a \<le> m \<Longrightarrow> cooling bad now (hd p) \<Longrightarrow>
   scan now bad m a p = scan now bad m (Suc a) (rotate1 p)"
  by (simp add: scan.simps [of now bad m a p])

lemma scan_not_cooling:
  "scan now bad m a p = (Some h, p') \<Longrightarrow> \<not> cooling bad now h"
proof (induction now bad m a p rule: scan.induct)
  case (1 now bad m a p)
  show ?case
  proof (cases "p \<noteq> [] \<and> a \<le> m")
    case True
    show ?thesis
    proof (cases "cooling bad now (hd p)")
      case c: True
      with True "1.prems" have "scan now bad m (a + 1) (rotate1 p) = (Some h, p')"
        by (simp add: scan_skip)
      with "1.IH" [OF True refl refl refl c] show ?thesis by simp
    next
      case False
      with True "1.prems" show ?thesis by (simp add: scan_hit)
    qed
  next
    case False
    with "1.prems" show ?thesis by (simp add: scan_stop)
  qed
qed

lemma scan_rotation: "\<exists>k. snd (scan now bad m a p) = rotate k p"
proof (induction now bad m a p rule: scan.induct)
  case (1 now bad m a p)
  show ?case
  proof (cases "p \<noteq> [] \<and> a \<le> m")
    case True
    show ?thesis
    proof (cases "cooling bad now (hd p)")
      case c: True
      from "1.IH" [OF True refl refl refl c] obtain k where
        "snd (scan now bad m (a + 1) (rotate1 p)) = rotate k (rotate1 p)" by blast
      then have "snd (scan now bad m a p) = rotate (Suc k) p"
        using True c by (simp add: scan_skip rotate1_rotate_swap)
      then show ?thesis by blast
    next
      case False
      with True have "snd (scan now bad m a p) = rotate 1 p"
        by (simp add: scan_hit)
      then show ?thesis by blast
    qed
  next
    case False
    then have "snd (scan now bad m a p) = rotate 0 p"
      by (simp add: scan_stop)
    then show ?thesis by blast
  qed
qed

lemma scan_empty: "scan now bad m a [] = (None, [])"
  by (simp add: scan.simps)

text \<open>
  While some host of the ring is out of cooldown the selection returns such a
  host.
\<close>

lemma scan_finds:
  "\<forall>x\<in>set xs. cooling bad now x \<Longrightarrow> \<not> cooling bad now h \<Longrightarrow> a + length xs \<le> m \<Longrightarrow>
   scan now bad m a (xs @ h # ys) = (Some h, ys @ xs @ [h])"
proof (induction xs arbitrary: a ys)
  case Nil
  then show ?case by (simp add: scan_hit)
next
  case (Cons x xs)
  from Cons.prems have "scan now bad m a ((x # xs) @ h # ys)
      = scan now bad m (Suc a) (xs @ h # (ys @ [x]))"
    by (simp add: scan_skip)
  also from Cons.prems have "\<dots> = (Some h, (ys @ [x]) @ xs @ [h])"
    by (intro Cons.IH) simp_all
  finally show ?case by simp
qed

lemma get_next_host_viable:
  assumes "\<exists>h\<in>set (pool pm). \<not> cooling (bad_hosts pm) now h"
  shows "\<exists>h. fst (get_next_host shuffle src now pm) = Some h \<and> h \<in> set (pool pm)
            \<and> \<not> cooling (bad_hosts pm) now h"
proof -
  from split_list_first_prop [OF assms] obtain xs h ys where
    p: "pool pm = xs @ h # ys" and h: "\<not> cooling (bad_hosts pm) now h"
    and xs: "\<forall>x\<in>set xs. \<not> \<not> cooling (bad_hosts pm) now x"
    by blast
  have "scan now (bad_hosts pm) (length (pool pm)) 0 (pool pm) = (Some h, ys @ xs @ [h])"
    unfolding p using xs h by (intro scan_finds) simp_all
  then have "fst (get_next_host shuffle src now pm) = Some h"
    by (simp add: get_next_host_def)
  with p h show ?thesis by simp
qed

text \<open>
  Claim C1. After \<open>mark_bad(E, d)\<close> with \<open>d > 0\<close> and before \<open>d\<close> has elapsed,
  \<open>get_next_host\<close> should never return \<open>E\<close>, also when every endpoint of the ring
  is in cooldown. That case is where the code fails: the loop never returns a
  host in cooldown, but the statements after the loop return the head of a
  non-empty ring unchecked. With the single host \<open>a\<close> marked bad at time 1000 for
  600 seconds, the selection at time 1001 returns \<open>a\<close>.
\<close>

theorem get_next_host_selects_cooling_host:
  "cooling (bad_hosts (mark_bad 1000 ''a'' 600 \<lparr>pool = [''a''], bad_hosts = Map.empty\<rparr>)) 1001 ''a''
   \<and> fst (get_next_host id None 1001
            (mark_bad 1000 ''a'' 600 \<lparr>pool = [''a''], bad_hosts = Map.empty\<rparr>)) = Some ''a''"
  by (simp add: get_next_host_def mark_bad_def scan.simps cooling_def)

text \<open>
  Claim C4, as the code has it. The refresh is guarded by \<open>if not self._pool\<close>: it
  happens when the ring is empty, and then the listed hosts are shuffled and appended,
  the first of them is returned and rotated to the end, or \<open>None\<close> is returned when
  nothing was listed (a failed listing included). On a non-empty ring the selection
  only rotates the ring: nothing is appended, whatever the cooldowns are.
\<close>

theorem get_next_host_refresh:
  "(pool pm = [] \<longrightarrow>
      get_next_host shuffle src now pm =
        (case shuffle (listed_hosts src) of
           [] \<Rightarrow> (None, pm)
         | h # hs \<Rightarrow> (Some h, pm\<lparr>pool := hs @ [h]\<rparr>)))
   \<and> (pool pm \<noteq> [] \<longrightarrow>
        (\<exists>k. pool (snd (get_next_host shuffle src now pm)) = rotate k (pool pm)))"
proof (intro conjI impI)
  assume e: "pool pm = []"
  show "get_next_host shuffle src now pm =
        (case shuffle (listed_hosts src) of
           [] \<Rightarrow> (None, pm)
         | h # hs \<Rightarrow> (Some h, pm\<lparr>pool := hs @ [h]\<rparr>))"
    using e by (cases "shuffle (listed_hosts src)")
      (simp_all add: get_next_host_def scan_empty refresh_pool_def Let_def)
next
  assume ne: "pool pm \<noteq> []"
  obtain r p' where s: "scan now (bad_hosts pm) (length (pool pm)) 0 (pool pm) = (r, p')"
    by (cases "scan now (bad_hosts pm) (length (pool pm)) 0 (pool pm)") 
  obtain k where k: "p' = rotate k (pool pm)"
    using scan_rotation [of now "bad_hosts pm" "length (pool pm)" 0 "pool pm"] s by auto
  have ne': "p' \<noteq> []" using k ne by simp
  show "\<exists>k. pool (snd (get_next_host shuffle src now pm)) = rotate k (pool pm)"
  proof (cases r)
    case None
    then have "pool (snd (get_next_host shuffle src now pm)) = rotate (Suc k) (pool pm)"
      using s k ne' by (simp add: get_next_host_def Let_def)
    then show ?thesis by blast
  next
    case (Some h)
    then have "pool (snd (get_next_host shuffle src now pm)) = rotate k (pool pm)"
      using s k by (simp add: get_next_host_def)
    then show ?thesis by blast
  qed
qed

theorem get_next_host_refresh_witness:
  "get_next_host rev (Some [Some ''b'', None, Some ''c'']) 5 \<lparr>pool = [], bad_hosts = Map.empty\<rparr>
     = (Some ''c'', \<lparr>pool = [''b'', ''c''], bad_hosts = Map.empty\<rparr>)
   \<and> (\<exists>k. pool (snd (get_next_host rev (Some [Some ''b'']) 5
                \<lparr>pool = [''a''], bad_hosts = [''a'' \<mapsto> 9]\<rparr>)) = rotate k [''a''])"
  using get_next_host_refresh [of "\<lparr>pool = [], bad_hosts = Map.empty\<rparr>" rev "Some [Some ''b'', None, Some ''c'']" 5]
        get_next_host_refresh [of "\<lparr>pool = [''a''], bad_hosts = [''a'' \<mapsto> 9]\<rparr>" rev "Some [Some ''b'']" 5]
  by (simp add: listed_hosts_def)

text \<open>
  Claim C4 as stated fails: the ring holds the single host \<open>a\<close>, in cooldown until
  1600, and the listing source would answer with host \<open>b\<close>. The full scan at time
  1001 finds no host out of cooldown, yet no refresh happens: the ring is unchanged
  and \<open>a\<close> is returned.
\<close>

theorem get_next_host_refresh_counterexample:
  "cooling [''a'' \<mapsto> 1600] 1001 ''a''
   \<and> get_next_host id (Some [Some ''b'']) 1001 \<lparr>pool = [''a''], bad_hosts = [''a'' \<mapsto> 1600]\<rparr>
       = (Some ''a'', \<lparr>pool = [''a''], bad_hosts = [''a'' \<mapsto> 1600]\<rparr>)"
  by (simp add: get_next_host_def scan.simps cooling_def)

section \<open>Properties of the spider\<close>

subsection \<open>The order of the strategies\<close>

lemma errback_not_yield: "errback u f \<noteq> Yield s'"
  by (simp add: errback_def split: option.splits failure.splits)

lemma emit_not_yield: "emit r \<noteq> Yield s'"
  by (simp add: emit_def split: sum.splits)

lemma mobile_yield: "parse_mobile_api L u r = Yield s' \<Longrightarrow> s' = WebApi"
  using emit_not_yield
  by (auto simp add: parse_mobile_api_def split: if_splits sum.splits)

lemma web_yield: "parse_api_v1 L u r = Yield s' \<Longrightarrow> s' = LegacyJson"
  using emit_not_yield
  by (auto simp add: parse_api_v1_def split: if_splits sum.splits)

lemma legacy_yield: "parse_legacy_json L u r = Yield s' \<Longrightarrow> s' = Html"
  using emit_not_yield
  by (auto simp add: parse_legacy_json_def split: if_splits sum.splits option.splits)

lemma html_not_yield: "parse_html L u r \<noteq> Yield s'"
  by (auto simp add: parse_html_def split: if_splits sum.splits option.splits)

lemma deliver_yield:
  "deliver L u s d = Yield s' \<Longrightarrow>
   (s = MobileApi \<and> s' = WebApi) \<or> (s = WebApi \<and> s' = LegacyJson)
   \<or> (s = LegacyJson \<and> s' = Html)"
proof -
  assume y: "deliver L u s d = Yield s'"
  then obtain r where c: "callback L u s r = Yield s'"
    using errback_not_yield by (cases d) (auto simp add: deliver_def)
  then show ?thesis
    using mobile_yield web_yield legacy_yield html_not_yield
    by (cases s) (auto simp add: callback_def)
qed

lemma advances_iff: "advances st \<longleftrightarrow> (\<exists>s'. st = Yield s')"
  by (cases st) (simp_all add: advances_def)

lemma crawl_final:
  "\<not> advances (deliver L u s (net s)) \<Longrightarrow> fst (crawl L u net s) = [s]"
  by (cases "deliver L u s (net s)") (simp_all add: crawl.simps [of L u net s] advances_def)

lemma crawl_advance:
  "deliver L u s (net s) = Yield s' \<Longrightarrow>
   crawl L u net s = (s # fst (crawl L u net s'), snd (crawl L u net s'))"
  by (simp add: crawl.simps [of L u net s] split: prod.splits)

lemma crawl_html: "fst (crawl L u net Html) = [Html]"
proof -
  have "\<not> advances (deliver L u Html (net Html))"
    using deliver_yield [of L u Html "net Html"] by (auto simp add: advances_iff)
  then show ?thesis by (rule crawl_final)
qed

lemma crawl_legacy:
  "fst (crawl L u net LegacyJson) =
     (if advances (deliver L u LegacyJson (net LegacyJson)) then [LegacyJson, Html]
      else [LegacyJson])"
proof (cases "advances (deliver L u LegacyJson (net LegacyJson))")
  case True
  then obtain s' where y: "deliver L u LegacyJson (net LegacyJson) = Yield s'"
    by (auto simp add: advances_iff)
  with deliver_yield [OF y] have "deliver L u LegacyJson (net LegacyJson) = Yield Html"
    by simp
  with crawl_advance [of L u LegacyJson net Html] True show ?thesis
    by (simp add: crawl_html)
next
  case False
  then show ?thesis by (simp add: crawl_final)
qed

lemma crawl_web:
  "fst (crawl L u net WebApi) =
     (if advances (deliver L u WebApi (net WebApi))
      then WebApi # fst (crawl L u net LegacyJson) else [WebApi])"
proof (cases "advances (deliver L u WebApi (net WebApi))")
  case True
  then obtain s' where y: "deliver L u WebApi (net WebApi) = Yield s'"
    by (auto simp add: advances_iff)
  with deliver_yield [OF y] have "deliver L u WebApi (net WebApi) = Yield LegacyJson"
    by simp
  with crawl_advance [of L u WebApi net LegacyJson] True show ?thesis by simp
next
  case False
  then show ?thesis by (simp add: crawl_final)
qed

lemma crawl_mobile:
  "fst (crawl L u net MobileApi) =
     (if advances (deliver L u MobileApi (net MobileApi))
      then MobileApi # fst (crawl L u net WebApi) else [MobileApi])"
proof (cases "advances (deliver L u MobileApi (net MobileApi))")
  case True
  then obtain s' where y: "deliver L u MobileApi (net MobileApi) = Yield s'"
    by (auto simp add: advances_iff)
  with deliver_yield [OF y] have "deliver L u MobileApi (net MobileApi) = Yield WebApi"
    by simp
  with crawl_advance [of L u MobileApi net WebApi] True show ?thesis by simp
next
  case False
  then show ?thesis by (simp add: crawl_final)
qed

lemma crawl_item:
  "deliver L u s (net s) = Item p \<Longrightarrow> crawl L u net s = ([s], Record p)"
  by (simp add: crawl.simps [of L u net s])

lemma crawl_raise:
  "deliver L u s (net s) = Raise e \<Longrightarrow> crawl L u net s = ([s], Raised e)"
  by (simp add: crawl.simps [of L u net s])

text \<open>
  When a strategy advances: the status is neither 404 nor 429, and where the
  callback looks for a user object it finds none (a status or a body it does not
  read, a body that does not decode, or a false value where the user would be).
  The HTML strategy and \<open>errback\<close> never advance.
\<close>

lemma mobile_advances:
  "advances (parse_mobile_api L u r) \<longleftrightarrow>
     status r \<noteq> 404 \<and> status r \<noteq> 429
     \<and> (status r = 200 \<and> py_strip (text_of r) \<noteq> [] \<longrightarrow>
          (\<exists>user. api_user (json_loads L (text_of r)) = Inr user \<and> \<not> truthy user))"
  by (auto simp add: parse_mobile_api_def advances_def emit_def split: sum.splits)

lemma web_advances:
  "advances (parse_api_v1 L u r) \<longleftrightarrow>
     status r \<noteq> 404 \<and> status r \<noteq> 429
     \<and> (status r = 200 \<longrightarrow>
          (\<exists>user. api_user (json_loads L (text_of r)) = Inr user \<and> \<not> truthy user))"
  by (auto simp add: parse_api_v1_def advances_def emit_def split: sum.splits)

lemma legacy_advances:
  "advances (parse_legacy_json L u r) \<longleftrightarrow>
     status r \<noteq> 404 \<and> status r \<noteq> 429
     \<and> (status r < 400 \<and> py_strip (text_of r) \<noteq> [] \<longrightarrow>
          json_loads L (text_of r) = None
          \<or> (\<exists>payload user. json_loads L (text_of r) = Some payload
                \<and> legacy_user payload = Inr user \<and> \<not> truthy user))"
  by (auto simp add: parse_legacy_json_def advances_def emit_def
      split: sum.splits option.splits)

lemma html_never_advances: "\<not> advances (parse_html L u r)"
  by (auto simp add: parse_html_def advances_def split: sum.splits option.splits)

lemma errback_never_advances: "\<not> advances (errback u f)"
  by (auto simp add: errback_def advances_def split: failure.splits)

text \<open>
  The requests of a run are a non-empty initial part of the fixed order, and each
  later strategy is requested exactly when the one before it was requested and
  advanced.
\<close>

lemma crawl_trace:
  "(\<exists>k. 1 \<le> k \<and> k \<le> 4 \<and>
        fst (crawl L u net MobileApi) = take k [MobileApi, WebApi, LegacyJson, Html])
   \<and> (WebApi \<in> set (fst (crawl L u net MobileApi)) \<longleftrightarrow>
        advances (deliver L u MobileApi (net MobileApi)))
   \<and> (LegacyJson \<in> set (fst (crawl L u net MobileApi)) \<longleftrightarrow>
        WebApi \<in> set (fst (crawl L u net MobileApi))
        \<and> advances (deliver L u WebApi (net WebApi)))
   \<and> (Html \<in> set (fst (crawl L u net MobileApi)) \<longleftrightarrow>
        LegacyJson \<in> set (fst (crawl L u net MobileApi))
        \<and> advances (deliver L u LegacyJson (net LegacyJson)))"
proof -
  let ?a = "advances (deliver L u MobileApi (net MobileApi))"
  let ?b = "advances (deliver L u WebApi (net WebApi))"
  let ?c = "advances (deliver L u LegacyJson (net LegacyJson))"
  have tr: "fst (crawl L u net MobileApi) =
      (if ?a then (if ?b then (if ?c then [MobileApi, WebApi, LegacyJson, Html]
                               else [MobileApi, WebApi, LegacyJson])
                   else [MobileApi, WebApi])
       else [MobileApi])"
    by (simp add: crawl_mobile crawl_web crawl_legacy)
  have "\<exists>k. 1 \<le> k \<and> k \<le> 4 \<and>
        fst (crawl L u net MobileApi) = take k [MobileApi, WebApi, LegacyJson, Html]"
  proof (cases ?a)
    case False
    then have "fst (crawl L u net MobileApi) = take 1 [MobileApi, WebApi, LegacyJson, Html]"
      by (simp add: tr)
    then show ?thesis by (intro exI [of _ 1]) simp
  next
    case a: True
    show ?thesis
    proof (cases ?b)
      case False
      with a have "fst (crawl L u net MobileApi) = take 2 [MobileApi, WebApi, LegacyJson, Html]"
        by (simp add: tr)
      then show ?thesis by (intro exI [of _ 2]) simp
    next
      case b: True
      show ?thesis
      proof (cases ?c)
        case False
        with a b have "fst (crawl L u net MobileApi) = take 3 [MobileApi, WebApi, LegacyJson, Html]"
          by (simp add: tr eval_nat_numeral)
        then show ?thesis by (intro exI [of _ 3]) simp
      next
        case True
        with a b have "fst (crawl L u net MobileApi) = take 4 [MobileApi, WebApi, LegacyJson, Html]"
          by (simp add: tr)
        then show ?thesis by (intro exI [of _ 4]) simp
      qed
    qed
  qed
  moreover have "WebApi \<in> set (fst (crawl L u net MobileApi)) \<longleftrightarrow> ?a"
    by (simp add: tr)
  moreover have "LegacyJson \<in> set (fst (crawl L u net MobileApi)) \<longleftrightarrow>
        WebApi \<in> set (fst (crawl L u net MobileApi)) \<and> ?b"
    by (simp add: tr)
  moreover have "Html \<in> set (fst (crawl L u net MobileApi)) \<longleftrightarrow>
        LegacyJson \<in> set (fst (crawl L u net MobileApi)) \<and> ?c"
    by (simp add: tr)
  ultimately show ?thesis by blast
qed


lemma callback_429:
  "status r = 429 \<Longrightarrow> callback L u s r = Raise (RateLimited rate_limited_msg)"
  by (cases s)
    (simp_all add: callback_def parse_mobile_api_def parse_api_v1_def
      parse_legacy_json_def parse_html_def)

lemma callback_404:
  "status r = 404 \<Longrightarrow> callback L u s r = Raise (ProfileNotFound (not_found_msg u))"
  by (cases s)
    (simp_all add: callback_def parse_mobile_api_def parse_api_v1_def
      parse_legacy_json_def parse_html_def)

text \<open>The definitions unfolded to run the first two strategies on a concrete net.\<close>

lemmas spider_eval =
  crawl.simps deliver_def callback_def parse_mobile_api_def parse_api_v1_def api_user_def
  and_then_def dict_get_def py_or_def emit_def build_result_from_user_def py_strip_def
  py_isspace_def advances_def Let_def

text \<open>
  Claim C2, as the code has it. The strategies are requested in the fixed order
  mobile API, web API, legacy JSON, HTML, and each later one exactly when the one
  before it advanced. A status of 404 or 429 ends the run with \<open>ProfileNotFound\<close> or
  \<open>RateLimited\<close>. Otherwise a strategy advances when it does not read the body
  (mobile API: a status other than 200 or a blank body; web API: a status other
  than 200; legacy JSON: a status of 400 or more, or a blank body) or when the body
  does not decode (legacy JSON); and when the lookup of the user in the decoded
  body ends without raising, the strategy advances if the value found is false and
  hands it to \<open>_build_result_from_user\<close> if it is true. The HTML strategy and
  \<open>errback\<close> never advance.
\<close>

theorem strategies_in_fixed_order:
  "(\<exists>k. 1 \<le> k \<and> k \<le> 4 \<and>
        fst (crawl L u net MobileApi) = take k [MobileApi, WebApi, LegacyJson, Html])
   \<and> (WebApi \<in> set (fst (crawl L u net MobileApi)) \<longleftrightarrow>
        advances (deliver L u MobileApi (net MobileApi)))
   \<and> (LegacyJson \<in> set (fst (crawl L u net MobileApi)) \<longleftrightarrow>
        WebApi \<in> set (fst (crawl L u net MobileApi))
        \<and> advances (deliver L u WebApi (net WebApi)))
   \<and> (Html \<in> set (fst (crawl L u net MobileApi)) \<longleftrightarrow>
        LegacyJson \<in> set (fst (crawl L u net MobileApi))
        \<and> advances (deliver L u LegacyJson (net LegacyJson)))
   \<and> \<not> advances (errback u f)
   \<and> \<not> advances (parse_html L u r)
   \<and> (status r = 404 \<longrightarrow> callback L u s r = Raise (ProfileNotFound (not_found_msg u)))
   \<and> (status r = 429 \<longrightarrow> callback L u s r = Raise (RateLimited rate_limited_msg))
   \<and> (status r \<noteq> 404 \<and> status r \<noteq> 429
        \<and> (status r \<noteq> 200 \<or> py_strip (text_of r) = []) \<longrightarrow>
        parse_mobile_api L u r = Yield WebApi)
   \<and> (status r = 200 \<and> py_strip (text_of r) \<noteq> []
        \<and> api_user (json_loads L (text_of r)) = Inr user \<longrightarrow>
        parse_mobile_api L u r =
          (if truthy user then emit (build_result_from_user u user) else Yield WebApi))
   \<and> (status r \<noteq> 404 \<and> status r \<noteq> 429 \<and> status r \<noteq> 200 \<longrightarrow>
        parse_api_v1 L u r = Yield LegacyJson)
   \<and> (status r = 200 \<and> api_user (json_loads L (text_of r)) = Inr user \<longrightarrow>
        parse_api_v1 L u r =
          (if truthy user then emit (build_result_from_user u user) else Yield LegacyJson))
   \<and> (status r \<noteq> 404 \<and> status r \<noteq> 429
        \<and> (400 \<le> status r \<or> py_strip (text_of r) = [] \<or> json_loads L (text_of r) = None)
        \<longrightarrow> parse_legacy_json L u r = Yield Html)
   \<and> (status r < 400 \<and> py_strip (text_of r) \<noteq> []
        \<and> json_loads L (text_of r) = Some payload \<and> legacy_user payload = Inr user \<longrightarrow>
        parse_legacy_json L u r =
          (if truthy user then emit (build_result_from_user u user) else Yield Html))
   \<and> \<not> advances (emit (build_result_from_user u user))"
proof -
  have a: "\<not> advances (errback u f)"
    by (rule errback_never_advances)
  have b: "\<not> advances (parse_html L u r)"
    by (rule html_never_advances)
  have c: "status r = 404 \<longrightarrow> callback L u s r = Raise (ProfileNotFound (not_found_msg u))"
    by (simp add: callback_404)
  have d: "status r = 429 \<longrightarrow> callback L u s r = Raise (RateLimited rate_limited_msg)"
    by (simp add: callback_429)
  have e: "status r \<noteq> 404 \<and> status r \<noteq> 429
        \<and> (status r \<noteq> 200 \<or> py_strip (text_of r) = []) \<longrightarrow>
        parse_mobile_api L u r = Yield WebApi"
    by (auto simp add: parse_mobile_api_def)
  have f: "status r = 200 \<and> py_strip (text_of r) \<noteq> []
        \<and> api_user (json_loads L (text_of r)) = Inr user \<longrightarrow>
        parse_mobile_api L u r =
          (if truthy user then emit (build_result_from_user u user) else Yield WebApi)"
    by (simp add: parse_mobile_api_def)
  have g: "status r \<noteq> 404 \<and> status r \<noteq> 429 \<and> status r \<noteq> 200 \<longrightarrow>
        parse_api_v1 L u r = Yield LegacyJson"
    by (simp add: parse_api_v1_def)
  have h: "status r = 200 \<and> api_user (json_loads L (text_of r)) = Inr user \<longrightarrow>
        parse_api_v1 L u r =
          (if truthy user then emit (build_result_from_user u user) else Yield LegacyJson)"
    by (simp add: parse_api_v1_def)
  have i: "status r \<noteq> 404 \<and> status r \<noteq> 429
        \<and> (400 \<le> status r \<or> py_strip (text_of r) = [] \<or> json_loads L (text_of r) = None)
        \<longrightarrow> parse_legacy_json L u r = Yield Html"
    by (auto simp add: parse_legacy_json_def)
  have j: "status r < 400 \<and> py_strip (text_of r) \<noteq> []
        \<and> json_loads L (text_of r) = Some payload \<and> legacy_user payload = Inr user \<longrightarrow>
        parse_legacy_json L u r =
          (if truthy user then emit (build_result_from_user u user) else Yield Html)"
    by (auto simp add: parse_legacy_json_def)
  have k: "\<not> advances (emit (build_result_from_user u user))"
    using emit_not_yield by (auto simp add: advances_iff)
  from crawl_trace [of L u net] a b c d e f g h i j k show ?thesis
    by (intro conjI) blast+
qed

theorem strategies_in_fixed_order_witness:
  "parse_mobile_api
       \<lparr>re_search = (\<lambda>p h. None),
        json_loads = (\<lambda>t. Some (JObj [(''data'', JObj [(''user'',
                        JObj [(''full_name'', JStr ''Some One'')])])])),
        unicode_escape = Some, html_unescape = id\<rparr>
       ''someone'' \<lparr>status = 200, text_of = []\<rparr> = Yield WebApi
   \<and> parse_api_v1
       \<lparr>re_search = (\<lambda>p h. None),
        json_loads = (\<lambda>t. Some (JObj [(''data'', JObj [(''user'',
                        JObj [(''full_name'', JStr ''Some One'')])])])),
        unicode_escape = Some, html_unescape = id\<rparr>
       ''someone'' \<lparr>status = 200, text_of = ''{data}''\<rparr>
     = Item \<lparr>username = ''someone'', full_name = JStr ''Some One'', biography = JNull,
             followers = 0, profile_picture_url = JNull\<rparr>
   \<and> fst (crawl
       \<lparr>re_search = (\<lambda>p h. None),
        json_loads = (\<lambda>t. Some (JObj [(''data'', JObj [(''user'',
                        JObj [(''full_name'', JStr ''Some One'')])])])),
        unicode_escape = Some, html_unescape = id\<rparr>
       ''someone''
       (\<lambda>s. Callback \<lparr>status = 200,
                         text_of = (if s = MobileApi then [] else ''{data}'')\<rparr>)
       MobileApi) = [MobileApi, WebApi]"
proof -
  let ?L = "\<lparr>re_search = (\<lambda>p h. None),
        json_loads = (\<lambda>t. Some (JObj [(''data'', JObj [(''user'',
                        JObj [(''full_name'', JStr ''Some One'')])])])),
        unicode_escape = Some, html_unescape = id\<rparr>"
  let ?net = "\<lambda>s. Callback \<lparr>status = 200,
                         text_of = (if s = MobileApi then [] else ''{data}'')\<rparr>"
  have "fst (crawl ?L ''someone'' ?net MobileApi) = [MobileApi, WebApi]"
    by (simp add: spider_eval)
  then show ?thesis
    using strategies_in_fixed_order [where L = ?L and u = "''someone''" and net = ?net
        and r = "\<lparr>status = 200, text_of = []\<rparr>"]
      strategies_in_fixed_order [where L = ?L and u = "''someone''" and net = ?net
        and r = "\<lparr>status = 200, text_of = ''{data}''\<rparr>"
        and user = "JObj [(''full_name'', JStr ''Some One'')]"]
    by (simp add: api_user_def and_then_def dict_get_def py_or_def emit_def
        build_result_from_user_def py_strip_def py_isspace_def)
qed

text \<open>
  Claim C2 as stated fails on what makes a strategy advance or end. First, the
  mobile API answers with status 403: that is no success body, ambiguous or empty,
  and yet the web API is requested. Second, the mobile API answers with status
  200 and the body \<open>{"data": null}\<close>, a success body without a user object: the
  lookup raises \<open>AttributeError\<close>, so the web API is not requested, and the run ends
  in none of the three ways the claim lists.
\<close>

theorem strategies_in_fixed_order_counterexample:
  "fst (crawl
       \<lparr>re_search = (\<lambda>p h. None),
        json_loads = (\<lambda>t. Some (JObj [(''data'', JObj [(''user'',
                        JObj [(''full_name'', JStr ''Some One'')])])])),
        unicode_escape = Some, html_unescape = id\<rparr>
       ''someone''
       (\<lambda>s. Callback \<lparr>status = (if s = MobileApi then 403 else 200),
                         text_of = ''{data}''\<rparr>)
       MobileApi) = [MobileApi, WebApi]
   \<and> crawl
       \<lparr>re_search = (\<lambda>p h. None),
        json_loads = (\<lambda>t. Some (JObj [(''data'', JNull)])),
        unicode_escape = Some, html_unescape = id\<rparr>
       ''someone''
       (\<lambda>s. Callback \<lparr>status = 200, text_of = ''{data: null}''\<rparr>)
       MobileApi = ([MobileApi], Raised AttributeError)"
  by (simp add: spider_eval)

subsection \<open>Status 404\<close>

lemma errback_404:
  "status r = 404 \<Longrightarrow> errback u (HttpError r) = Raise (ProfileNotFound (not_found_msg u))"
  by (simp add: errback_def)

text \<open>
  Claim C5. A response with status 404 makes the callback of every strategy raise
  \<open>ProfileNotFound\<close>, whatever the body is, and so does \<open>errback\<close> for an
  \<open>HttpError\<close> with that status; the run ends at that strategy, no later one is
  requested.
\<close>

theorem not_found_on_404:
  "status r = 404 \<Longrightarrow>
     callback L u s r = Raise (ProfileNotFound (not_found_msg u))
     \<and> errback u (HttpError r) = Raise (ProfileNotFound (not_found_msg u))
     \<and> (net s = Callback r \<or> net s = Errback (HttpError r) \<longrightarrow>
          crawl L u net s = ([s], Raised (ProfileNotFound (not_found_msg u))))"
proof -
  assume st: "status r = 404"
  have d: "deliver L u s (net s) = Raise (ProfileNotFound (not_found_msg u))"
    if "net s = Callback r \<or> net s = Errback (HttpError r)"
    using that st by (auto simp add: deliver_def callback_404 errback_404)
  show ?thesis
    using st d crawl_raise [of L u s net] by (simp add: callback_404 errback_404)
qed

theorem not_found_on_404_witness:
  "status \<lparr>status = 404, text_of = ''<html>page</html>''\<rparr> = 404
   \<and> callback \<lparr>re_search = (\<lambda>p h. Some ''1''), json_loads = (\<lambda>t. Some (JObj [])),
                unicode_escape = Some, html_unescape = id\<rparr> ''someone'' Html
        \<lparr>status = 404, text_of = ''<html>page</html>''\<rparr>
       = Raise (ProfileNotFound (not_found_msg ''someone''))
   \<and> crawl \<lparr>re_search = (\<lambda>p h. Some ''1''), json_loads = (\<lambda>t. Some (JObj [])),
             unicode_escape = Some, html_unescape = id\<rparr> ''someone''
        (\<lambda>s. Callback \<lparr>status = 404, text_of = ''<html>page</html>''\<rparr>) LegacyJson
       = ([LegacyJson], Raised (ProfileNotFound (not_found_msg ''someone'')))"
  using not_found_on_404 [of "\<lparr>status = 404, text_of = ''<html>page</html>''\<rparr>"
      "\<lparr>re_search = (\<lambda>p h. Some ''1''), json_loads = (\<lambda>t. Some (JObj [])),
        unicode_escape = Some, html_unescape = id\<rparr>" "''someone''" Html
      "\<lambda>s. Callback \<lparr>status = 404, text_of = ''<html>page</html>''\<rparr>"]
    not_found_on_404 [of "\<lparr>status = 404, text_of = ''<html>page</html>''\<rparr>"
      "\<lparr>re_search = (\<lambda>p h. Some ''1''), json_loads = (\<lambda>t. Some (JObj [])),
        unicode_escape = Some, html_unescape = id\<rparr>" "''someone''" LegacyJson
      "\<lambda>s. Callback \<lparr>status = 404, text_of = ''<html>page</html>''\<rparr>"]
  by simp

subsection \<open>The follower count\<close>

text \<open>
  What \<open>int\<close> makes of a string: the separators 28 to 31 at either end are not
  dropped, the other whitespace is, and a string with too many digits is rejected.
\<close>

lemma int_of_str_separators:
  "py_int (JStr [CHR 0x1C, CHR ''1'', CHR ''2'']) = Inl ValueError"
  "py_int (JStr [CHR ''1'', CHR ''2'', CHR 0x1F]) = Inl ValueError"
  "py_int (JStr [CHR 0xA0, CHR ''1'', CHR ''2'', CHR 0x85]) = Inr 12"
  "py_int (JStr '' -1_000 '') = Inr (- 1000)"
  "py_int (JStr ''1__0'') = Inl ValueError"
  by (simp_all add: int_of_str_def int_strip_def int_isspace_def int_max_str_digits_def
      is_digit_def digits_value_def)

lemma int_of_str_too_long:
  assumes "int_max_str_digits < length (filter is_digit s)"
  shows "int_of_str s = None"
proof -
  let ?t = "int_strip s"
  have nd: "\<not> int_isspace c" if "is_digit c" for c
    using that by (auto simp add: is_digit_def int_isspace_def Let_def)
  have drop: "filter is_digit (dropWhile int_isspace xs) = filter is_digit xs" for xs
    by (induction xs) (use nd in auto)
  have "filter is_digit ?t = filter is_digit s"
    by (simp add: int_strip_def drop rev_filter [symmetric])
  moreover have "filter is_digit (tl ?t) = filter is_digit ?t"
    if "?t \<noteq> []" "hd ?t = CHR ''-'' \<or> hd ?t = CHR ''+''"
    using that by (cases ?t) (auto simp add: is_digit_def)
  ultimately show ?thesis
    using assms by (auto simp add: int_of_str_def Let_def)
qed

lemma build_followers:
  "dict_get (JObj kvs) ''edge_followed_by'' (JObj []) = Inr edge \<Longrightarrow>
   dict_get (py_or edge (JObj [])) ''count'' JNull = Inr c \<Longrightarrow>
   build_result_from_user u (JObj kvs) =
     (case py_int (py_or c (JInt 0)) of
        Inl e \<Rightarrow> Inl e
      | Inr n \<Rightarrow>
          Inr \<lparr>username = u,
               full_name = (case map_of kvs ''full_name'' of None \<Rightarrow> JNull | Some v \<Rightarrow> v),
               biography = (let bio = (case map_of kvs ''biography'' of None \<Rightarrow> JNull | Some v \<Rightarrow> v)
                            in if truthy bio then bio else JNull),
               followers = n,
               profile_picture_url =
                 (let pic_hd = (case map_of kvs ''profile_pic_url_hd'' of None \<Rightarrow> JNull | Some v \<Rightarrow> v)
                  in if truthy pic_hd then pic_hd
                     else (case map_of kvs ''profile_pic_url'' of None \<Rightarrow> JNull | Some v \<Rightarrow> v))\<rparr>)"
  by (simp add: build_result_from_user_def and_then_def dict_get_def Let_def
      split: sum.splits)

text \<open>
  Claim C6, as the code has it. For a user object that is a dictionary,
  \<open>followers\<close> is 0 when \<open>edge_followed_by\<close> is absent or false (\<open>null\<close> included)
  or when its \<open>count\<close> is absent or false; otherwise it is \<open>int(count)\<close>: the count
  itself when it is an integer, of either sign, and whatever \<open>int\<close> makes of a
  float, a boolean or a string. When \<open>int\<close> raises, no record is produced, and
  a true value under \<open>edge_followed_by\<close> that is not a dictionary raises
  \<open>AttributeError\<close>.
\<close>

theorem followers_of_user:
  "(map_of kvs ''edge_followed_by'' = None \<longrightarrow>
      map_sum id followers (build_result_from_user u (JObj kvs)) = Inr 0)
   \<and> (map_of kvs ''edge_followed_by'' = Some edge \<and> \<not> truthy edge \<longrightarrow>
      map_sum id followers (build_result_from_user u (JObj kvs)) = Inr 0)
   \<and> (map_of kvs ''edge_followed_by'' = Some (JObj ekvs) \<and> map_of ekvs ''count'' = None \<longrightarrow>
      map_sum id followers (build_result_from_user u (JObj kvs)) = Inr 0)
   \<and> (map_of kvs ''edge_followed_by'' = Some (JObj ekvs) \<and> map_of ekvs ''count'' = Some c \<longrightarrow>
      map_sum id followers (build_result_from_user u (JObj kvs)) =
        (if truthy c then py_int c else Inr 0))
   \<and> (map_of kvs ''edge_followed_by'' = Some edge \<and> truthy edge
        \<and> (case edge of JObj ekvs \<Rightarrow> False | _ \<Rightarrow> True) \<longrightarrow>
      build_result_from_user u (JObj kvs) = Inl AttributeError)
   \<and> py_int (JInt n) = Inr n"
proof (intro conjI impI)
  assume "map_of kvs ''edge_followed_by'' = None"
  then show "map_sum id followers (build_result_from_user u (JObj kvs)) = Inr 0"
    using build_followers [of kvs "JObj []" JNull u]
    by (simp add: dict_get_def py_or_def)
next
  assume "map_of kvs ''edge_followed_by'' = Some edge \<and> \<not> truthy edge"
  then show "map_sum id followers (build_result_from_user u (JObj kvs)) = Inr 0"
    using build_followers [of kvs edge JNull u]
    by (simp add: dict_get_def py_or_def)
next
  assume "map_of kvs ''edge_followed_by'' = Some (JObj ekvs) \<and> map_of ekvs ''count'' = None"
  then show "map_sum id followers (build_result_from_user u (JObj kvs)) = Inr 0"
    using build_followers [of kvs "JObj ekvs" JNull u]
    by (cases ekvs) (simp_all add: dict_get_def py_or_def)
next
  assume a: "map_of kvs ''edge_followed_by'' = Some (JObj ekvs) \<and> map_of ekvs ''count'' = Some c"
  then have "ekvs \<noteq> []" by auto
  with a show "map_sum id followers (build_result_from_user u (JObj kvs)) =
        (if truthy c then py_int c else Inr 0)"
    using build_followers [of kvs "JObj ekvs" c u]
    by (simp add: dict_get_def py_or_def split: sum.splits)
next
  assume a: "map_of kvs ''edge_followed_by'' = Some edge \<and> truthy edge
        \<and> (case edge of JObj ekvs \<Rightarrow> False | _ \<Rightarrow> True)"
  then show "build_result_from_user u (JObj kvs) = Inl AttributeError"
    by (cases edge)
      (simp_all add: build_result_from_user_def and_then_def dict_get_def py_or_def)
next
  show "py_int (JInt n) = Inr n" by simp
qed

theorem followers_of_user_witness:
  "map_sum id followers (build_result_from_user ''someone'' (JObj [(''full_name'', JStr ''Some One'')])) = Inr 0
   \<and> map_sum id followers (build_result_from_user ''someone'' (JObj [(''edge_followed_by'', JNull)])) = Inr 0
   \<and> map_sum id followers (build_result_from_user ''someone'' (JObj [(''edge_followed_by'', JObj [(''x'', JInt 3)])])) = Inr 0
   \<and> map_sum id followers (build_result_from_user ''someone''
        (JObj [(''edge_followed_by'', JObj [(''count'', JInt 1234)])])) = Inr 1234
   \<and> build_result_from_user ''someone'' (JObj [(''edge_followed_by'', JInt 5)]) = Inl AttributeError"
  using followers_of_user [where kvs = "[(''full_name'', JStr ''Some One'')]"
        and u = "''someone''"]
    followers_of_user [where kvs = "[(''edge_followed_by'', JNull)]" and edge = JNull
        and u = "''someone''"]
    followers_of_user [where kvs = "[(''edge_followed_by'', JObj [(''x'', JInt 3)])]"
        and ekvs = "[(''x'', JInt 3)]" and u = "''someone''"]
    followers_of_user [where kvs = "[(''edge_followed_by'', JObj [(''count'', JInt 1234)])]"
        and ekvs = "[(''count'', JInt 1234)]" and c = "JInt 1234" and u = "''someone''"]
    followers_of_user [where kvs = "[(''edge_followed_by'', JInt 5)]" and edge = "JInt 5"
        and u = "''someone''"]
  by simp

text \<open>
  Claim C6 as stated fails: a count that is not numeric, here the string
  \<open>abc\<close>, raises \<open>ValueError\<close> instead of giving 0, and a negative count gives a
  negative number of followers.
\<close>

theorem followers_of_user_counterexample:
  "build_result_from_user ''someone''
      (JObj [(''edge_followed_by'', JObj [(''count'', JStr ''abc'')])]) = Inl ValueError
   \<and> map_sum id followers (build_result_from_user ''someone''
        (JObj [(''edge_followed_by'', JObj [(''count'', JInt (- 1))])])) = Inr (- 1)"
  by (simp add: build_result_from_user_def and_then_def dict_get_def py_or_def
      int_of_str_def int_strip_def int_isspace_def int_max_str_digits_def
      py_strip_def py_isspace_def is_digit_def Let_def)

subsection \<open>The HTML strategy\<close>

text \<open>
  Claim C7, as the code has it. For a response whose status is neither 404 nor
  429 and whose blob lookup does not raise: when the blob gives a true user object
  from which a record can be built, that record is the result; when it gives none
  and the three extractions by regular expression do not raise, the result is
  \<open>ProfileNotFound\<close> with the reason \<open>Unable to extract data ...\<close> if the follower
  count is 0 and the picture is missing or empty, and the extracted record
  otherwise.
\<close>

theorem parse_html_outcome:
  "status r \<noteq> 404 \<Longrightarrow> status r \<noteq> 429 \<Longrightarrow> blob_user L (text_of r) = Inr user \<Longrightarrow>
     (truthy user \<and> build_result_from_user u user = Inr p \<longrightarrow>
        parse_html L u r = Item p)
   \<and> (\<not> truthy user \<and> regex_followers L (text_of r) = Inr n
        \<and> regex_picture L (text_of r) = Inr pic
        \<and> regex_biography L (text_of r) = Inr bio \<longrightarrow>
        parse_html L u r =
          (if n = 0 \<and> \<not> truthy pic then Raise (ProfileNotFound (unable_msg u))
           else Item \<lparr>username = u, full_name = regex_full_name L (text_of r),
                      biography = bio, followers = n, profile_picture_url = pic\<rparr>))"
  by (simp add: parse_html_def extract_from_html_def regex_profile_def and_then_def)

theorem parse_html_outcome_witness:
  "parse_html
      \<lparr>re_search = (\<lambda>p h. if p = SharedData then Some ''blob'' else None),
       json_loads = (\<lambda>t. Some (JObj [(''entry_data'', JObj [(''ProfilePage'',
          JArr [JObj [(''graphql'', JObj [(''user'',
            JObj [(''edge_followed_by'', JObj [(''count'', JInt 1234)])])])]])])])),
       unicode_escape = Some, html_unescape = id\<rparr>
      ''someone'' \<lparr>status = 200, text_of = ''page''\<rparr>
     = Item \<lparr>username = ''someone'', full_name = JNull, biography = JNull,
             followers = 1234, profile_picture_url = JNull\<rparr>
   \<and> parse_html
      \<lparr>re_search = (\<lambda>p h. None), json_loads = (\<lambda>t. None),
       unicode_escape = Some, html_unescape = id\<rparr>
      ''someone'' \<lparr>status = 200, text_of = ''page''\<rparr>
     = Raise (ProfileNotFound (unable_msg ''someone''))
   \<and> parse_html
      \<lparr>re_search = (\<lambda>p h. if p = EdgeFollowedBy then Some ''12'' else None),
       json_loads = (\<lambda>t. None), unicode_escape = Some, html_unescape = id\<rparr>
      ''someone'' \<lparr>status = 200, text_of = ''page''\<rparr>
     = Item \<lparr>username = ''someone'', full_name = JNull, biography = JNull,
             followers = 12, profile_picture_url = JNull\<rparr>"
  using parse_html_outcome [of "\<lparr>status = 200, text_of = ''page''\<rparr>"
      "\<lparr>re_search = (\<lambda>p h. if p = SharedData then Some ''blob'' else None),
       json_loads = (\<lambda>t. Some (JObj [(''entry_data'', JObj [(''ProfilePage'',
          JArr [JObj [(''graphql'', JObj [(''user'',
            JObj [(''edge_followed_by'', JObj [(''count'', JInt 1234)])])])]])])])),
       unicode_escape = Some, html_unescape = id\<rparr>"
      "JObj [(''edge_followed_by'', JObj [(''count'', JInt 1234)])]" "''someone''"
      "\<lparr>username = ''someone'', full_name = JNull, biography = JNull,
             followers = 1234, profile_picture_url = JNull\<rparr>" 0 JNull JNull]
    parse_html_outcome [of "\<lparr>status = 200, text_of = ''page''\<rparr>"
      "\<lparr>re_search = (\<lambda>p h. None), json_loads = (\<lambda>t. None),
       unicode_escape = Some, html_unescape = id\<rparr>" JNull "''someone''" undefined 0 JNull JNull]
    parse_html_outcome [of "\<lparr>status = 200, text_of = ''page''\<rparr>"
      "\<lparr>re_search = (\<lambda>p h. if p = EdgeFollowedBy then Some ''12'' else None),
       json_loads = (\<lambda>t. None), unicode_escape = Some, html_unescape = id\<rparr>"
      JNull "''someone''" undefined 12 JNull JNull]
  by (simp add: blob_user_def extract_json_blob_def and_then_def dict_get_def
      first_item_def py_or_def build_result_from_user_def regex_followers_def
      regex_picture_def regex_biography_def regex_full_name_def
      int_of_str_def int_strip_def int_isspace_def int_max_str_digits_def
      py_strip_def py_isspace_def is_digit_def digits_value_def Let_def)

text \<open>
  Claim C7 as stated fails. First, the blob yields a user object whose count
  is the string \<open>abc\<close>: the strategy ends with \<open>ValueError\<close>, neither with a record
  nor with \<open>ProfileNotFound\<close>. Second, the regular expression finds 12 followers
  but the status is 429: the strategy ends with \<open>RateLimited\<close>.
\<close>

theorem parse_html_outcome_counterexample:
  "blob_user
      \<lparr>re_search = (\<lambda>p h. if p = SharedData then Some ''blob'' else None),
       json_loads = (\<lambda>t. Some (JObj [(''entry_data'', JObj [(''ProfilePage'',
          JArr [JObj [(''graphql'', JObj [(''user'',
            JObj [(''edge_followed_by'', JObj [(''count'', JStr ''abc'')])])])]])])])),
       unicode_escape = Some, html_unescape = id\<rparr> ''page''
     = Inr (JObj [(''edge_followed_by'', JObj [(''count'', JStr ''abc'')])])
   \<and> parse_html
      \<lparr>re_search = (\<lambda>p h. if p = SharedData then Some ''blob'' else None),
       json_loads = (\<lambda>t. Some (JObj [(''entry_data'', JObj [(''ProfilePage'',
          JArr [JObj [(''graphql'', JObj [(''user'',
            JObj [(''edge_followed_by'', JObj [(''count'', JStr ''abc'')])])])]])])])),
       unicode_escape = Some, html_unescape = id\<rparr>
      ''someone'' \<lparr>status = 200, text_of = ''page''\<rparr> = Raise ValueError
   \<and> regex_followers
      \<lparr>re_search = (\<lambda>p h. if p = EdgeFollowedBy then Some ''12'' else None),
       json_loads = (\<lambda>t. None), unicode_escape = Some, html_unescape = id\<rparr> ''page''
     = Inr 12
   \<and> parse_html
      \<lparr>re_search = (\<lambda>p h. if p = EdgeFollowedBy then Some ''12'' else None),
       json_loads = (\<lambda>t. None), unicode_escape = Some, html_unescape = id\<rparr>
      ''someone'' \<lparr>status = 429, text_of = ''page''\<rparr> = Raise (RateLimited rate_limited_msg)"
  by (simp add: parse_html_def extract_from_html_def blob_user_def extract_json_blob_def
      and_then_def dict_get_def first_item_def py_or_def build_result_from_user_def
      int_of_str_def int_strip_def int_isspace_def int_max_str_digits_def
      py_strip_def py_isspace_def is_digit_def regex_followers_def
      digits_value_def Let_def)

subsection \<open>The handle of a record\<close>

lemma build_username:
  "build_result_from_user u user = Inr p \<Longrightarrow> username p = u"
  by (auto simp add: build_result_from_user_def and_then_def split: sum.splits)

lemma emit_username:
  "emit (build_result_from_user u user) = Item p \<Longrightarrow> username p = u"
  by (auto simp add: emit_def build_username split: sum.splits)

lemma regex_profile_username:
  "regex_profile L u html = Inr (Some p) \<Longrightarrow> username p = u"
  by (auto simp add: regex_profile_def and_then_def split: sum.splits if_splits)

lemma extract_username:
  "extract_from_html L u html = Inr (Some p) \<Longrightarrow> username p = u"
  by (auto simp add: extract_from_html_def and_then_def build_username
      regex_profile_username split: sum.splits if_splits)

lemma errback_not_item: "errback u f \<noteq> Item p"
  by (simp add: errback_def split: option.splits failure.splits)

lemma callback_username:
  "callback L u s r = Item p \<Longrightarrow> username p = u"
proof (cases s)
  case MobileApi
  assume "callback L u s r = Item p"
  with MobileApi show ?thesis
    by (auto simp add: callback_def parse_mobile_api_def emit_username
        split: if_splits sum.splits)
next
  case WebApi
  assume "callback L u s r = Item p"
  with WebApi show ?thesis
    by (auto simp add: callback_def parse_api_v1_def emit_username
        split: if_splits sum.splits)
next
  case LegacyJson
  assume "callback L u s r = Item p"
  with LegacyJson show ?thesis
    by (auto simp add: callback_def parse_legacy_json_def emit_username
        split: if_splits sum.splits option.splits)
next
  case Html
  assume "callback L u s r = Item p"
  with Html show ?thesis
    by (auto simp add: callback_def parse_html_def extract_username
        split: if_splits sum.splits option.splits)
qed

lemma deliver_username:
  "deliver L u s d = Item p \<Longrightarrow> username p = u"
  using errback_not_item callback_username
  by (cases d) (auto simp add: deliver_def)

lemma crawl_username:
  "snd (crawl L u net s) = Record p \<Longrightarrow> username p = u"
proof (induction L u net s rule: crawl.induct)
  case (1 L u net s)
  show ?case
  proof (cases "deliver L u s (net s)")
    case (Yield s')
    with "1.prems" have "snd (crawl L u net s') = Record p"
      by (simp add: crawl_advance)
    with "1.IH" Yield show ?thesis by simp
  next
    case (Item q)
    with "1.prems" have "q = p" by (simp add: crawl_item)
    with Item show ?thesis using deliver_username by blast
  next
    case (Raise e)
    with "1.prems" show ?thesis by (simp add: crawl_raise)
  qed
qed

lemma lstrip_at_head: "take 1 (lstrip_at s) \<noteq> ''@''"
proof (cases "lstrip_at s")
  case Nil
  then show ?thesis by simp
next
  case (Cons c cs)
  then have "dropWhile (\<lambda>c. c = CHR ''@'') s \<noteq> []" by (simp add: lstrip_at_def)
  from hd_dropWhile [OF this] Cons show ?thesis by (simp add: lstrip_at_def)
qed

text \<open>
  Claim C9, as the code has it. The handle of every record a run produces, by
  whichever strategy, is the name the spider was given with surrounding whitespace
  stripped and every leading \<open>@\<close> removed; so it does not start with \<open>@\<close>. The
  letters keep their case.
\<close>

theorem handle_of_record:
  "snd (run_spider L name net) = Record p \<Longrightarrow>
     username p = lstrip_at (py_strip name) \<and> take 1 (username p) \<noteq> ''@''"
  using crawl_username [of L "spider_username name" net MobileApi p] lstrip_at_head
  by (simp add: run_spider_def spider_username_def)

theorem handle_of_record_witness:
  "snd (run_spider
      \<lparr>re_search = (\<lambda>p h. None),
       json_loads = (\<lambda>t. Some (JObj [(''data'', JObj [(''user'',
                       JObj [(''full_name'', JStr ''Some One'')])])])),
       unicode_escape = Some, html_unescape = id\<rparr>
      '' @@some.one '' (\<lambda>s. Callback \<lparr>status = 200, text_of = ''{}''\<rparr>))
    = Record \<lparr>username = ''some.one'', full_name = JStr ''Some One'', biography = JNull,
              followers = 0, profile_picture_url = JNull\<rparr>
   \<and> lstrip_at (py_strip '' @@some.one '') = ''some.one''"
proof -
  have r: "snd (run_spider
      \<lparr>re_search = (\<lambda>p h. None),
       json_loads = (\<lambda>t. Some (JObj [(''data'', JObj [(''user'',
                       JObj [(''full_name'', JStr ''Some One'')])])])),
       unicode_escape = Some, html_unescape = id\<rparr>
      '' @@some.one '' (\<lambda>s. Callback \<lparr>status = 200, text_of = ''{}''\<rparr>))
    = Record \<lparr>username = ''some.one'', full_name = JStr ''Some One'', biography = JNull,
              followers = 0, profile_picture_url = JNull\<rparr>"
    by (simp add: run_spider_def spider_username_def crawl.simps deliver_def callback_def
        parse_mobile_api_def api_user_def and_then_def dict_get_def py_or_def emit_def
        build_result_from_user_def py_strip_def py_isspace_def lstrip_at_def Let_def)
  from handle_of_record [OF r] r show ?thesis by simp
qed

text \<open>
  Claim C9 as stated fails: for the name \<open>Foo\<close> the record of the mobile API
  strategy holds the handle \<open>Foo\<close>, which is not lowercase.
\<close>

theorem handle_of_record_counterexample:
  "snd (run_spider
      \<lparr>re_search = (\<lambda>p h. None),
       json_loads = (\<lambda>t. Some (JObj [(''data'', JObj [(''user'',
                       JObj [(''full_name'', JStr ''Foo Bar'')])])])),
       unicode_escape = Some, html_unescape = id\<rparr>
      ''Foo'' (\<lambda>s. Callback \<lparr>status = 200, text_of = ''{}''\<rparr>))
    = Record \<lparr>username = ''Foo'', full_name = JStr ''Foo Bar'', biography = JNull,
              followers = 0, profile_picture_url = JNull\<rparr>
   \<and> ascii_lower ''Foo'' = ''foo'' \<and> ''Foo'' \<noteq> ''foo''"
proof -
  have "ascii_lower ''Foo'' = ''foo''"
    by code_simp
  then show ?thesis
    by (simp add: run_spider_def spider_username_def crawl.simps deliver_def callback_def
        parse_mobile_api_def api_user_def and_then_def dict_get_def py_or_def emit_def
        build_result_from_user_def py_strip_def py_isspace_def lstrip_at_def Let_def)
qed

subsection \<open>The legacy payload with an empty list of items\<close>

text \<open>
  Claim C10. A legacy payload with neither a user under \<open>graphql\<close> nor under
  \<open>data\<close> and with \<open>items\<close> an empty list: \<open>items[0]\<close> raises \<open>IndexError\<close>, so the
  lookup of the user raises, and the callback ends with that exception, not with
  a record and not with the request of the HTML strategy.
\<close>

theorem legacy_items_empty_raises:
  "status r \<noteq> 404 \<Longrightarrow> status r \<noteq> 429 \<Longrightarrow> status r < 400 \<Longrightarrow>
   py_strip (text_of r) \<noteq> [] \<Longrightarrow>
   json_loads L (text_of r) = Some (JObj kvs) \<Longrightarrow>
   map_of kvs ''items'' = Some (JArr []) \<Longrightarrow>
   shape_user (JObj kvs) ''graphql'' = Inr a \<Longrightarrow> \<not> truthy a \<Longrightarrow>
   shape_user (JObj kvs) ''data'' = Inr b \<Longrightarrow> \<not> truthy b \<Longrightarrow>
     first_item (JArr []) = Inl IndexError
     \<and> legacy_user (JObj kvs) = Inl IndexError
     \<and> parse_legacy_json L u r = Raise IndexError"
  by (simp add: parse_legacy_json_def legacy_user_def and_then_def dict_get_def
      first_item_def)

theorem legacy_items_empty_raises_witness:
  "parse_legacy_json
     \<lparr>re_search = (\<lambda>p h. None),
      json_loads = (\<lambda>t. Some (JObj [(''items'', JArr [])])),
      unicode_escape = Some, html_unescape = id\<rparr>
     ''someone'' \<lparr>status = 200, text_of = ''{items: []}''\<rparr> = Raise IndexError"
  using legacy_items_empty_raises [of "\<lparr>status = 200, text_of = ''{items: []}''\<rparr>"
      "\<lparr>re_search = (\<lambda>p h. None),
        json_loads = (\<lambda>t. Some (JObj [(''items'', JArr [])])),
        unicode_escape = Some, html_unescape = id\<rparr>"
      "[(''items'', JArr [])]" JNull JNull "''someone''"]
  by (simp add: shape_user_def and_then_def dict_get_def py_strip_def py_isspace_def)

section \<open>Properties of the service\<close>

text \<open>
  A run never raises one of the three exceptions of the spider, so the loop is
  left early only by a \<open>break\<close> or by the exception of \<open>_proxy_reachable\<close>.
\<close>

lemma run_with_proxy_cases:
  "(\<exists>recs. run_with_proxy L name net crash = Returned recs)
   \<or> (\<exists>m. run_with_proxy L name net crash = ThrewOther m)"
  by (simp add: run_with_proxy_def split: option.splits outcome.splits)

lemma run_with_proxy_not_spider_exception:
  "run_with_proxy L name net crash \<noteq> ThrewRateLimited m"
  "run_with_proxy L name net crash \<noteq> ThrewProfileNotFound m"
  "run_with_proxy L name net crash \<noteq> ThrewProxyTimeout m"
  using run_with_proxy_cases [of L name net crash] by auto

lemma loop_body_Continue:
  "loop_body cfg W name st = Continue st' \<Longrightarrow>
   \<exists>e. events st' = events st @ [e] \<and> \<not> is_direct e
       \<and> proxy_attempts st' = Suc (proxy_attempts st)
       \<and> failure_reasons st' = failure_reasons st @ reason_of e"
  by (auto simp add: loop_body_def Let_def
      split: prod.splits if_splits option.splits probe.splits run_result.splits)

lemma loop_body_Break:
  "loop_body cfg W name st = Break st' \<Longrightarrow>
   \<exists>e. events st' = events st @ [e] \<and> \<not> is_direct e
       \<and> failure_reasons st' = failure_reasons st @ reason_of e"
  by (auto simp add: loop_body_def Let_def
      split: prod.splits if_splits option.splits probe.splits run_result.splits)

lemma loop_body_Raises:
  "loop_body cfg W name st = Raises err st' \<Longrightarrow>
   err = ProbeValueError \<and> (\<exists>h. events st' = events st @ [ProbeFailed h])
   \<and> failure_reasons st' = failure_reasons st"
  by (auto simp add: loop_body_def Let_def run_with_proxy_not_spider_exception
      split: prod.splits if_splits option.splits probe.splits run_result.splits)

lemma proxy_loop_stop:
  "\<not> int (proxy_attempts st) < proxy_retry_limit cfg \<Longrightarrow>
   proxy_loop cfg W name st = (None, st)"
  by (simp add: proxy_loop.simps [of cfg W name st])

lemma proxy_loop_step:
  "int (proxy_attempts st) < proxy_retry_limit cfg \<Longrightarrow>
   proxy_loop cfg W name st =
     (case loop_body cfg W name st of
        Continue st' \<Rightarrow> proxy_loop cfg W name st'
      | Break st' \<Rightarrow> (None, st')
      | Raises err st' \<Rightarrow> (Some err, st'))"
  by (simp add: proxy_loop.simps [of cfg W name st])

lemma proxy_loop_events:
  "proxy_loop cfg W name st = (r, st') \<Longrightarrow>
   \<exists>new. events st' = events st @ new
     \<and> int (length new) \<le> max 0 (proxy_retry_limit cfg - int (proxy_attempts st))
     \<and> (\<forall>e\<in>set new. \<not> is_direct e)
     \<and> failure_reasons st' = failure_reasons st @ concat (map reason_of new)
     \<and> (r = None \<or> r = Some ProbeValueError)"
proof (induction cfg W name st arbitrary: r st' rule: proxy_loop.induct)
  case (1 cfg W name st)
  show ?case
  proof (cases "int (proxy_attempts st) < proxy_retry_limit cfg")
    case False
    with "1.prems" have "r = None" "st' = st" by (simp_all add: proxy_loop_stop)
    then show ?thesis by simp
  next
    case lt: True
    show ?thesis
    proof (cases "loop_body cfg W name st")
      case (Continue st1)
      with lt "1.prems" have run: "proxy_loop cfg W name st1 = (r, st')"
        by (simp add: proxy_loop_step)
      from loop_body_Continue [OF Continue] obtain e where
        e: "events st1 = events st @ [e]" "\<not> is_direct e"
           "proxy_attempts st1 = Suc (proxy_attempts st)"
           "failure_reasons st1 = failure_reasons st @ reason_of e"
        by blast
      from "1.IH" [OF lt Continue run] obtain new where
        n: "events st' = events st1 @ new"
           "int (length new) \<le> max 0 (proxy_retry_limit cfg - int (proxy_attempts st1))"
           "\<forall>x\<in>set new. \<not> is_direct x"
           "failure_reasons st' = failure_reasons st1 @ concat (map reason_of new)"
           "r = None \<or> r = Some ProbeValueError"
        by blast
      have "events st' = events st @ (e # new)
        \<and> int (length (e # new)) \<le> max 0 (proxy_retry_limit cfg - int (proxy_attempts st))
        \<and> (\<forall>x\<in>set (e # new). \<not> is_direct x)
        \<and> failure_reasons st' = failure_reasons st @ concat (map reason_of (e # new))
        \<and> (r = None \<or> r = Some ProbeValueError)"
        using n e lt by simp
      then show ?thesis by blast
    next
      case (Break st1)
      with lt "1.prems" have r: "r = None" "st' = st1"
        by (simp_all add: proxy_loop_step)
      from loop_body_Break [OF Break] obtain e where
        e: "events st1 = events st @ [e]" "\<not> is_direct e"
           "failure_reasons st1 = failure_reasons st @ reason_of e"
        by blast
      have "events st' = events st @ [e]
        \<and> int (length [e]) \<le> max 0 (proxy_retry_limit cfg - int (proxy_attempts st))
        \<and> (\<forall>x\<in>set [e]. \<not> is_direct x)
        \<and> failure_reasons st' = failure_reasons st @ concat (map reason_of [e])
        \<and> (r = None \<or> r = Some ProbeValueError)"
        using e r lt by simp
      then show ?thesis by blast
    next
      case (Raises err st1)
      with lt "1.prems" have r: "r = Some err" "st' = st1"
        by (simp_all add: proxy_loop_step)
      from loop_body_Raises [OF Raises] obtain h where
        e: "err = ProbeValueError" "events st1 = events st @ [ProbeFailed h]"
           "failure_reasons st1 = failure_reasons st"
        by blast
      have "events st' = events st @ [ProbeFailed h]
        \<and> int (length [ProbeFailed h]) \<le> max 0 (proxy_retry_limit cfg - int (proxy_attempts st))
        \<and> (\<forall>x\<in>set [ProbeFailed h]. \<not> is_direct x)
        \<and> failure_reasons st' = failure_reasons st @ concat (map reason_of [ProbeFailed h])
        \<and> (r = None \<or> r = Some ProbeValueError)"
        using e r lt by simp
      then show ?thesis by blast
    qed
  qed
qed





text \<open>The definitions unfolded to run the service on a concrete world.\<close>

lemmas service_eval =
  scrape_instagram_profile_def initial_state_def proxy_loop.simps loop_body_def
  direct_attempt_def run_with_proxy_def run_spider_def spider_username_def crawl.simps
  deliver_def callback_def parse_mobile_api_def errback_def
  get_next_host_def scan.simps cooling_def mark_bad_def refresh_pool_def listed_hosts_def
  socks5_url_def str_truthy_def py_strip_def py_isspace_def lstrip_at_def Let_def



text \<open>
  The service never raises \<open>RateLimitError\<close> or \<open>ScraperRuntimeError\<close>: the
  exceptions of the spider that would lead to them do not reach it.
\<close>

lemma direct_attempt_error:
  "direct_attempt W name st = (Some err, st') \<Longrightarrow> \<exists>m. err = ProfileNotFoundError m"
  using run_with_proxy_cases [of "library W" name "direct_net W" "direct_crash W"]
  by (auto simp add: direct_attempt_def Let_def split: run_result.splits)

lemma scrape_never_rate_limited:
  "fst (scrape_instagram_profile cfg W name pm) \<noteq> Inl (RateLimitError m)
   \<and> fst (scrape_instagram_profile cfg W name pm) \<noteq> Inl (ScraperRuntimeError m)"
proof -
  obtain r lst where loop: "proxy_loop cfg W name (initial_state pm) = (r, lst)"
    by (cases "proxy_loop cfg W name (initial_state pm)")
  from proxy_loop_events [OF loop] have r: "r = None \<or> r = Some ProbeValueError"
    by blast
  show ?thesis
  proof (cases r)
    case (Some err)
    with r loop show ?thesis by (simp add: scrape_instagram_profile_def)
  next
    case None
    show ?thesis
    proof (cases "result_buffer lst = []")
      case False
      with None loop show ?thesis by (simp add: scrape_instagram_profile_def)
    next
      case True
      obtain d st' where d: "direct_attempt W name lst = (d, st')"
        by (cases "direct_attempt W name lst")
      show ?thesis
      proof (cases d)
        case None
        with \<open>r = None\<close> loop True d show ?thesis
          by (simp add: scrape_instagram_profile_def)
      next
        case (Some err)
        with d direct_attempt_error obtain m' where "err = ProfileNotFoundError m'"
          by blast
        with Some \<open>r = None\<close> loop True d show ?thesis
          by (simp add: scrape_instagram_profile_def)
      qed
    qed
  qed
qed

text \<open>
  Claim C8. A rate limited classification during a proxy attempt should end the
  request at once with \<open>RateLimitError\<close>, the proxy marked bad and no further
  attempt made. Here every request is answered with status 429 and the ring holds
  the hosts \<open>a\<close> and \<open>b\<close>. The spider raises \<open>RateLimited\<close>, but the run through \<open>a\<close>
  returns, so the service leaves the loop as after a success: \<open>a\<close> is not marked
  bad, the direct attempt is made, and the request ends with
  \<open>ProfileNotFoundError\<close> and the detail \<open>No data returned\<close>.
\<close>

theorem rate_limited_proxy_run_goes_on:
  "snd (run_spider
      \<lparr>re_search = (\<lambda>p h. None), json_loads = (\<lambda>t. None),
       unicode_escape = Some, html_unescape = id\<rparr>
      ''someone'' (\<lambda>s. Callback \<lparr>status = 429, text_of = []\<rparr>))
     = Raised (RateLimited rate_limited_msg)
   \<and> scrape_instagram_profile
      \<lparr>proxy_retry_limit = 5, socks5_host = None, socks5_port = Some 1080,
       nord_username = Some ''user'', nord_password = Some ''secret''\<rparr>
      \<lparr>shuffle_of = id, listing_at = (\<lambda>i. None), select_time = (\<lambda>i. 1000),
       mark_time = (\<lambda>i. 1000), probe_at = (\<lambda>i url. Reached),
       library = \<lparr>re_search = (\<lambda>p h. None), json_loads = (\<lambda>t. None),
                  unicode_escape = Some, html_unescape = id\<rparr>,
       proxy_net = (\<lambda>i url s. Callback \<lparr>status = 429, text_of = []\<rparr>),
       proxy_crash = (\<lambda>i url. None),
       direct_net = (\<lambda>s. Callback \<lparr>status = 429, text_of = []\<rparr>),
       direct_crash = None, validates = (\<lambda>p. True)\<rparr>
      ''someone'' \<lparr>pool = [''a'', ''b''], bad_hosts = Map.empty\<rparr>
     = (Inl (ProfileNotFoundError (unavailable_msg ''someone'' ''No data returned'')),
        \<lparr>manager = \<lparr>pool = [''b'', ''a''], bad_hosts = Map.empty\<rparr>,
         proxy_attempts = 1, result_buffer = [], failure_reasons = [],
         events = [ProxyRun ''a'' (Returned []), DirectRun (Returned [])]\<rparr>)"
  by (simp add: service_eval)

end
